theory Spec2Isabelle
  imports Main
begin

section \<open>The Azure publishing plugin: job status table, history store, coordinator\<close>

text \<open>
  The development embeds the class \<open>AzurePublisher\<close> of
  \<^verbatim>\<open>Composer/plugins/azurePublish/src/index.ts\<close>.

  The two dictionaries of the class (\<open>publishingBots\<close> and \<open>histories\<close>) are plain
  JavaScript objects, so a read \<open>obj[key]\<close> that finds no property of the object finds
  the member of \<open>Object.prototype\<close> of that name, when there is one. The containers the
  class creates for a bot are read through \<open>readProp\<close>, which gives that member for an
  inherited name. A bot id that is an inherited name makes the class work on the
  member itself, a built-in object outside the class: the operations answer
  \<open>Unmodelled\<close> there and leave the state as it is, and every property below that
  speaks of all keys either says that the bot id and the profile name are not
  inherited names or speaks of a key whose list holds a record, which no inherited
  name has.

  Job records are JavaScript objects that the code mutates through references
  (\<open>status.status = 200\<close>), so the state carries an object store: a reference is a
  natural number and \<open>objects\<close> gives the record a reference denotes. History entries
  are copies that are never written again and are plain values.

  The libraries the class calls (\<open>uuid\<close>, \<open>fs-extra\<close>, \<open>BotProjectDeploy\<close>) are not part
  of the class. What they return or throw enters the model as parameters: the fresh
  job id, the clock, the hash of the resource key (which throws for a namespace that
  is no UUID), the outcome of the file operations of \<open>publish\<close>, the outcome of a
  deployment.
\<close>

subsection \<open>JavaScript array and string primitives\<close>

text \<open>\<open>Array.prototype.findIndex\<close>: the first index whose element satisfies the
  predicate, \<open>-1\<close> when there is none.\<close>

fun findIndexFrom :: "('a \<Rightarrow> bool) \<Rightarrow> int \<Rightarrow> 'a list \<Rightarrow> int" where
  "findIndexFrom P k [] = -1"
| "findIndexFrom P k (x # xs) = (if P x then k else findIndexFrom P (k + 1) xs)"

definition findIndex :: "('a \<Rightarrow> bool) \<Rightarrow> 'a list \<Rightarrow> int" where
  "findIndex P xs = findIndexFrom P 0 xs"

text \<open>Indexed read \<open>xs[i]\<close>: \<open>undefined\<close> (here \<open>None\<close>) outside \<open>0 .. length - 1\<close>,
  in particular at \<open>-1\<close>.\<close>

definition at :: "'a list \<Rightarrow> int \<Rightarrow> 'a option" where
  "at xs i = (if 0 \<le> i \<and> i < int (length xs) then Some (xs ! nat i) else None)"

text \<open>\<open>Array.prototype.slice\<close>: a negative bound counts from the end, and both bounds
  are clamped to \<open>0 .. length\<close>.\<close>

definition relativeIndex :: "int \<Rightarrow> int \<Rightarrow> nat" where
  "relativeIndex len i = nat (if i < 0 then max (len + i) 0 else min i len)"

definition slice :: "'a list \<Rightarrow> int \<Rightarrow> int \<Rightarrow> 'a list" where
  "slice xs start end =
     (let len = int (length xs);
          k = relativeIndex len start;
          final = relativeIndex len end
      in take (final - k) (drop k xs))"

definition sliceFrom :: "'a list \<Rightarrow> int \<Rightarrow> 'a list" where
  "sliceFrom xs start = slice xs start (int (length xs))"

text \<open>\<open>Array.prototype.join\<close>.\<close>

fun join :: "string \<Rightarrow> string list \<Rightarrow> string" where
  "join sep [] = []"
| "join sep [x] = x"
| "join sep (x # y # ys) = x @ sep @ join sep (y # ys)"

definition newline :: string where
  "newline = [CHR 0x0A]"

subsection \<open>Property reads on plain objects\<close>

text \<open>The names of the members of \<open>Object.prototype\<close>.\<close>

definition objectPrototypeNames :: "string list" where
  "objectPrototypeNames =
     [''constructor'', ''__defineGetter__'', ''__defineSetter__'', ''hasOwnProperty'',
      ''__lookupGetter__'', ''__lookupSetter__'', ''isPrototypeOf'', ''propertyIsEnumerable'',
      ''toString'', ''valueOf'', ''__proto__'', ''toLocaleString'']"

definition inherited :: "string \<Rightarrow> bool" where
  "inherited k = (k \<in> set objectPrototypeNames)"

text \<open>What a read \<open>obj[k]\<close> of a container created by \<open>{}\<close> finds: nothing, a property
  of the object, or the member of \<open>Object.prototype\<close> named \<open>k\<close>. The class assigns to
  \<open>obj[k]\<close> only after such a read was falsy, and every member is truthy, so an object
  never gets a property of its own under an inherited name; the map of the object is
  therefore read at other names only.\<close>

datatype 'a property = Undefined | Own 'a | Member string

definition readProp :: "(string \<rightharpoonup> 'a) \<Rightarrow> string \<Rightarrow> 'a property" where
  "readProp obj k =
     (if inherited k then Member k
      else (case obj k of None \<Rightarrow> Undefined | Some v \<Rightarrow> Own v))"

text \<open>The \<open>length\<close> of a member: the number of parameters of the function;
  \<open>__proto__\<close> reads as \<open>Object.prototype\<close>, which has no \<open>length\<close>, and \<open>undefined > 0\<close>
  is false like \<open>0 > 0\<close>. No member has a property \<open>0\<close> or \<open>1\<close>, or a method \<open>push\<close>,
  \<open>unshift\<close>, \<open>find\<close> or \<open>findIndex\<close>.\<close>

definition memberLength :: "string \<Rightarrow> nat" where
  "memberLength k =
     (if k \<in> set [''__defineGetter__'', ''__defineSetter__''] then 2
      else if k \<in> set [''constructor'', ''hasOwnProperty'', ''__lookupGetter__'',
                        ''__lookupSetter__'', ''isPrototypeOf'', ''propertyIsEnumerable'']
      then 1 else 0)"

text \<open>A value that is an array of the class or a member of \<open>Object.prototype\<close>.\<close>

datatype 'a jsvalue = Array "'a list" | ObjectMember string

subsection \<open>Data model\<close>

type_synonym ref = nat

text \<open>The payload \<open>{ id, time, message, log, comment }\<close> of a job record; \<open>r_id\<close> is
  the field \<open>id\<close>. A \<open>Date\<close> is its time stamp; \<open>comment\<close> is \<open>metadata.comment\<close>, which
  may be \<open>undefined\<close>.\<close>

record Result =
  r_id :: string
  time :: nat
  message :: string
  log :: string
  comment :: "string option"

record JobRecord =
  status :: int
  result :: Result

text \<open>A history entry is \<open>{ status: status.status, ...status.result }\<close>.\<close>

record HistoryEntry =
  h_status :: int
  h_id :: string
  h_time :: nat
  h_message :: string
  h_log :: string
  h_comment :: "string option"

definition toHistory :: "JobRecord \<Rightarrow> HistoryEntry" where
  "toHistory r =
     \<lparr>h_status = status r, h_id = r_id (result r), h_time = time (result r),
      h_message = message (result r), h_log = log (result r),
      h_comment = comment (result r)\<rparr>"

text \<open>The argument of \<open>new BotProjectDeploy\<close>; the project folder is named, like the
  entries of \<open>folders\<close> below, by its resource key.\<close>

record Deployer =
  subId :: "string option"
  d_accessToken :: string
  projFolder :: string

text \<open>The fields of the class, the object store, and the staging folders on disk
  (resource key to the runtime code copied into the folder). \<open>historyFile\<close> is the
  content of \<^verbatim>\<open>publishHistory.txt\<close>, \<open>None\<close> while the file does not exist. New objects
  take the reference \<open>nextRef\<close>; a reference not yet handed out denotes a blank
  record.\<close>

record AzurePublisher =
  publishingBots :: "string \<rightharpoonup> (string \<rightharpoonup> ref list)"
  histories :: "string \<rightharpoonup> (string \<rightharpoonup> HistoryEntry list)"
  logMessages :: "string list"
  azDeployer :: "Deployer option"
  objects :: "ref \<Rightarrow> JobRecord"
  nextRef :: ref
  folders :: "string \<rightharpoonup> string"
  historyFile :: "(string \<rightharpoonup> (string \<rightharpoonup> HistoryEntry list)) option"

text \<open>What a call throws: a \<open>TypeError\<close> of the engine, or the \<open>Error\<close> of a file
  operation with its message. \<open>Unmodelled\<close> is no error of the program: it marks a
  call with a bot id that is an inherited name.\<close>

datatype error = TypeError | IOError string | Unmodelled

text \<open>The message of an error. The text of a \<open>TypeError\<close> depends on the engine and
  on the place; one text stands for it.\<close>

definition errorMessage :: "error \<Rightarrow> string" where
  "errorMessage e =
     (case e of IOError m \<Rightarrow> m | _ \<Rightarrow> ''Cannot read properties of undefined'')"

definition PERSIST_HISTORY :: bool where
  "PERSIST_HISTORY = False"

subsection \<open>History store\<close>

text \<open>\<open>getHistory\<close> returns what it reads when that is truthy, so for an inherited
  profile name of a known bot it returns the member, not an array.\<close>

definition getHistory ::
  "AzurePublisher \<Rightarrow> string \<Rightarrow> string \<Rightarrow> error + HistoryEntry jsvalue" where
  "getHistory s botId profileName =
     (if inherited botId then Inl Unmodelled
      else
        (case histories s botId of
           None \<Rightarrow> Inr (Array [])
         | Some profiles \<Rightarrow>
             (case readProp profiles profileName of
                Undefined \<Rightarrow> Inr (Array [])
              | Own entries \<Rightarrow> Inr (Array entries)
              | Member k \<Rightarrow> Inr (ObjectMember k))))"

text \<open>The result of a call that changes the state is the error it throws, if any, and
  the state it leaves. \<open>updateHistory\<close> creates the bot's container first; under an
  inherited profile name the read is truthy, no array is created, and \<open>unshift\<close> is
  not a function.\<close>

definition updateHistory ::
  "AzurePublisher \<Rightarrow> string \<Rightarrow> string \<Rightarrow> HistoryEntry \<Rightarrow> error option \<times> AzurePublisher" where
  "updateHistory s botId profileName newHistory =
     (if inherited botId then (Some Unmodelled, s)
      else
        (let profiles = (case histories s botId of None \<Rightarrow> Map.empty | Some m \<Rightarrow> m);
             grow = (\<lambda>entries.
               let histories' =
                     (histories s)(botId \<mapsto> profiles(profileName \<mapsto> newHistory # entries));
                   s' = s\<lparr>histories := histories'\<rparr>
               in (None, if PERSIST_HISTORY then s'\<lparr>historyFile := Some histories'\<rparr> else s'))
         in case readProp profiles profileName of
              Undefined \<Rightarrow> grow []
            | Own entries \<Rightarrow> grow entries
            | Member k \<Rightarrow> (Some TypeError, s\<lparr>histories := (histories s)(botId \<mapsto> profiles)\<rparr>)))"

subsection \<open>Job status table\<close>

definition addLoadingStatus ::
  "AzurePublisher \<Rightarrow> string \<Rightarrow> string \<Rightarrow> ref \<Rightarrow> error option \<times> AzurePublisher" where
  "addLoadingStatus s botId profileName newStatus =
     (if inherited botId then (Some Unmodelled, s)
      else
        (let profiles = (case publishingBots s botId of None \<Rightarrow> Map.empty | Some m \<Rightarrow> m);
             grow = (\<lambda>jobs.
               (None, s\<lparr>publishingBots :=
                  (publishingBots s)(botId \<mapsto> profiles(profileName \<mapsto> jobs @ [newStatus]))\<rparr>))
         in case readProp profiles profileName of
              Undefined \<Rightarrow> grow []
            | Own jobs \<Rightarrow> grow jobs
            | Member k \<Rightarrow>
                (Some TypeError, s\<lparr>publishingBots := (publishingBots s)(botId \<mapsto> profiles)\<rparr>)))"

text \<open>An array is truthy also when it is empty, so the guard of \<open>removeLoadingStatus\<close>
  asks only whether both reads find something. \<open>findIndex\<close> may return \<open>-1\<close>; the two
  slices are taken with that index as it is. A member has no \<open>findIndex\<close>.\<close>

definition removeLoadingStatus ::
  "AzurePublisher \<Rightarrow> string \<Rightarrow> string \<Rightarrow> string
     \<Rightarrow> (error + ref option) \<times> AzurePublisher" where
  "removeLoadingStatus s botId profileName jobId =
     (if inherited botId then (Inl Unmodelled, s)
      else
        (case publishingBots s botId of
           None \<Rightarrow> (Inr None, s)
         | Some profiles \<Rightarrow>
             (case readProp profiles profileName of
                Undefined \<Rightarrow> (Inr None, s)
              | Member k \<Rightarrow> (Inl TypeError, s)
              | Own jobs \<Rightarrow>
                  (let index = findIndex (\<lambda>item. r_id (result (objects s item)) = jobId) jobs;
                       status = at jobs index;
                       jobs' = slice jobs 0 index @ sliceFrom jobs (index + 1)
                   in (Inr status,
                       s\<lparr>publishingBots :=
                           (publishingBots s)(botId \<mapsto> profiles(profileName \<mapsto> jobs'))\<rparr>)))))"

text \<open>\<open>getLoadingStatus\<close> tests the bot's container and then reads \<open>.length\<close> of what
  the profile name finds, without testing that it found something: reading \<open>.length\<close>
  of \<open>undefined\<close> throws a \<open>TypeError\<close>. The default of \<open>jobId\<close> is the empty string,
  which is falsy. For a member with a positive \<open>length\<close>, \<open>find\<close> is not a function and
  the element at \<open>length - 1\<close> is \<open>undefined\<close>.\<close>

definition getLoadingStatus ::
  "AzurePublisher \<Rightarrow> string \<Rightarrow> string \<Rightarrow> string \<Rightarrow> error + ref option" where
  "getLoadingStatus s botId profileName jobId =
     (if inherited botId then Inl Unmodelled
      else
        (case publishingBots s botId of
           None \<Rightarrow> Inr None
         | Some profiles \<Rightarrow>
             (case readProp profiles profileName of
                Undefined \<Rightarrow> Inl TypeError
              | Own jobs \<Rightarrow>
                  if length jobs > 0 then
                    (if jobId \<noteq> [] then
                       Inr (find (\<lambda>item. r_id (result (objects s item)) = jobId) jobs)
                     else Inr (at jobs (int (length jobs) - 1)))
                  else Inr None
              | Member k \<Rightarrow>
                  if memberLength k > 0 then (if jobId \<noteq> [] then Inl TypeError else Inr None)
                  else Inr None)))"

text \<open>The list the job status table holds under a key; a key without a list has no
  jobs.\<close>

definition jobsOf :: "AzurePublisher \<Rightarrow> string \<Rightarrow> string \<Rightarrow> ref list" where
  "jobsOf s botId profileName =
     (if inherited botId then []
      else
        (case publishingBots s botId of
           None \<Rightarrow> []
         | Some profiles \<Rightarrow>
             (case readProp profiles profileName of Own jobs \<Rightarrow> jobs | _ \<Rightarrow> [])))"

subsection \<open>Construction, staging folders, logger\<close>

text \<open>The constructor. With \<open>PERSIST_HISTORY\<close> set it would seed \<open>histories\<close> from the
  history file when the file exists.\<close>

definition blankRecord :: JobRecord where
  "blankRecord =
     \<lparr>status = 0,
      result = \<lparr>r_id = [], time = 0, message = [], log = [], comment = None\<rparr>\<rparr>"

definition newAzurePublisher ::
  "(string \<rightharpoonup> (string \<rightharpoonup> HistoryEntry list)) option \<Rightarrow> AzurePublisher" where
  "newAzurePublisher file =
     \<lparr>publishingBots = Map.empty,
      histories =
        (if PERSIST_HISTORY then (case file of None \<Rightarrow> Map.empty | Some h \<Rightarrow> h)
         else Map.empty),
      logMessages = [],
      azDeployer = None,
      objects = (\<lambda>_. blankRecord),
      nextRef = 0,
      folders = Map.empty,
      historyFile = file\<rparr>"

text \<open>\<open>init\<close> empties the project folder, writes the bot files and the settings and
  copies the runtime code; of the folder's content the model keeps where the runtime
  code came from. \<open>cleanup\<close> empties and removes the folder.\<close>

definition init :: "AzurePublisher \<Rightarrow> string \<Rightarrow> string \<Rightarrow> AzurePublisher" where
  "init s srcTemplate resourcekey = s\<lparr>folders := (folders s)(resourcekey \<mapsto> srcTemplate)\<rparr>"

definition cleanup :: "AzurePublisher \<Rightarrow> string \<Rightarrow> AzurePublisher" where
  "cleanup s resourcekey = s\<lparr>folders := (folders s)(resourcekey := None)\<rparr>"

text \<open>The logger handed to the deployer; \<open>msg\<close> is the message after
  \<open>JSON.stringify\<close>.\<close>

definition logger :: "AzurePublisher \<Rightarrow> string \<Rightarrow> AzurePublisher" where
  "logger s msg = s\<lparr>logMessages := logMessages s @ [msg]\<rparr>"

text \<open>An object literal: a new object in the store.\<close>

definition newObject :: "AzurePublisher \<Rightarrow> JobRecord \<Rightarrow> ref \<times> AzurePublisher" where
  "newObject s r =
     (nextRef s, s\<lparr>objects := (objects s)(nextRef s := r), nextRef := Suc (nextRef s)\<rparr>)"

subsection \<open>Completion of a deployment\<close>

text \<open>\<open>createAndDeploy\<close> awaits the deployer and then runs its completion code. The
  model is that completion code, as a function of how the deployment ended:
  it resolved, or it rejected with an error (\<open>None\<close> for a falsy error value).
  The completion code is taken as one step: what other tasks may do at its two
  \<open>await\<close>s (after \<open>updateHistory\<close> and in \<open>cleanup\<close>) is not part of it. An error
  thrown inside the \<open>try\<close> block is caught by the same \<open>catch\<close> block as a rejected
  deployment; an error thrown inside the \<open>catch\<close> block rejects the call.\<close>

datatype outcome = Deployed | Rejected "string option"

text \<open>The body shared by the two branches: write the terminal status through the
  reference, copy the record into the history, remove it from the table, clean up.
  It stops where a call throws, with the state of that moment.\<close>

definition settle ::
  "AzurePublisher \<Rightarrow> string \<Rightarrow> string \<Rightarrow> string \<Rightarrow> string \<Rightarrow> ref \<Rightarrow> int \<Rightarrow> string
     \<Rightarrow> error option \<times> AzurePublisher" where
  "settle s botId profileName jobId resourcekey st code msg =
     (let r = objects s st;
          s1 = s\<lparr>objects := (objects s)
                 (st := r\<lparr>status := code,
                          result := (result r)\<lparr>message := msg,
                                                log := join newline (logMessages s)\<rparr>\<rparr>)\<rparr>
      in case updateHistory s1 botId profileName (toHistory (objects s1 st)) of
           (Some e, s2) \<Rightarrow> (Some e, s2)
         | (None, s2) \<Rightarrow>
             (case removeLoadingStatus s2 botId profileName jobId of
                (Inl e, s3) \<Rightarrow> (Some e, s3)
              | (Inr removed, s3) \<Rightarrow> (None, cleanup s3 resourcekey)))"

definition deployFailed ::
  "AzurePublisher \<Rightarrow> string \<Rightarrow> string \<Rightarrow> string \<Rightarrow> string \<Rightarrow> string option
     \<Rightarrow> error + AzurePublisher" where
  "deployFailed s botId profileName jobId resourcekey err =
     (case getLoadingStatus s botId profileName jobId of
        Inl e \<Rightarrow> Inl e
      | Inr None \<Rightarrow> Inr s
      | Inr (Some st) \<Rightarrow>
          (case settle s botId profileName jobId resourcekey st 500
                  (case err of Some m \<Rightarrow> m | None \<Rightarrow> ''publish error'') of
             (Some e, s') \<Rightarrow> Inl e
           | (None, s') \<Rightarrow> Inr s'))"

definition createAndDeploy ::
  "AzurePublisher \<Rightarrow> string \<Rightarrow> string \<Rightarrow> string \<Rightarrow> string \<Rightarrow> outcome
     \<Rightarrow> error + AzurePublisher" where
  "createAndDeploy s botId profileName jobId resourcekey out =
     (case out of
        Deployed \<Rightarrow>
          (case getLoadingStatus s botId profileName jobId of
             Inl e \<Rightarrow> deployFailed s botId profileName jobId resourcekey (Some (errorMessage e))
           | Inr None \<Rightarrow> Inr s
           | Inr (Some st) \<Rightarrow>
               (case settle s botId profileName jobId resourcekey st 200 ''Success'' of
                  (Some e, s') \<Rightarrow>
                    deployFailed s' botId profileName jobId resourcekey (Some (errorMessage e))
                | (None, s') \<Rightarrow> Inr s'))
      | Rejected err \<Rightarrow> deployFailed s botId profileName jobId resourcekey err)"

subsection \<open>The plugin methods\<close>

record PublishConfig =
  name :: string
  templatePath :: string
  subscriptionID :: "string option"
  publishName :: "string option"
  environment :: "string option"
  location :: "string option"
  luisAuthoringKey :: "string option"
  luisAuthoringRegion :: "string option"
  provision :: "(string \<times> string) list option"
  accessToken :: "string option"

text \<open>\<open>project.settings.runtime\<close>, \<open>None\<close> when \<open>settings\<close> or \<open>runtime\<close> is missing.\<close>

record Runtime =
  customRuntime :: bool
  path :: "string option"

record Project =
  p_id :: string
  p_name :: "string option"
  runtime :: "Runtime option"

record Metadata =
  md_comment :: "string option"

text \<open>What the file operations of one \<open>publish\<close> do: \<open>None\<close> where they return,
  \<open>Some m\<close> where one of them throws an \<open>Error\<close> with message \<open>m\<close>. \<open>initError\<close> is for the
  calls of \<open>init\<close>; \<open>mergeError\<close> is for \<open>readJson\<close> and \<open>writeJson\<close> of
  \<^verbatim>\<open>appsettings.deployment.json\<close> and for \<open>new BotProjectDeploy\<close>.\<close>

record FileOutcomes =
  initError :: "string option"
  mergeError :: "string option"

text \<open>Truthiness of a value that is a string or \<open>undefined\<close>.\<close>

definition truthy :: "string option \<Rightarrow> bool" where
  "truthy v = (case v of None \<Rightarrow> False | Some str \<Rightarrow> str \<noteq> [])"

definition accessTokenMissing :: string where
  "accessTokenMissing = ''Required field `accessToken` is missing from publishing profile.''"

definition provisionMissing :: string where
  "provisionMissing =
     ''no successful created resource in Azure according to your config, please run provision script to do the provision''"

text \<open>The call of \<open>uuid.v5\<close> with the subscription id as namespace. \<open>hash\<close> stands for
  the library function: \<open>None\<close> where it throws its \<open>TypeError\<close>, as it does for a
  namespace that is \<open>undefined\<close> or no UUID.\<close>

definition resourceKeyOf ::
  "(string option list \<Rightarrow> string option \<Rightarrow> string option) \<Rightarrow> PublishConfig \<Rightarrow> Project
     \<Rightarrow> string option" where
  "resourceKeyOf hash config project =
     hash [p_name project, subscriptionID config, publishName config, location config,
           environment config,
           (case provision config of
              None \<Rightarrow> None
            | Some pr \<Rightarrow> map_of pr ''MicrosoftAppPassword''),
           luisAuthoringKey config, luisAuthoringRegion config]
          (subscriptionID config)"

definition runtimeCodePathOf :: "PublishConfig \<Rightarrow> Project \<Rightarrow> string" where
  "runtimeCodePathOf config project =
     (case runtime project of
        None \<Rightarrow> templatePath config
      | Some rt \<Rightarrow>
          if customRuntime rt \<and> truthy (path rt) then the (path rt) else templatePath config)"

text \<open>The \<open>catch\<close> block of \<open>publish\<close>. \<open>updateHistory\<close> and \<open>cleanup\<close> are called without
  \<open>await\<close>: an error of \<open>updateHistory\<close> rejects a promise nobody waits for, and the
  block goes on with the state \<open>updateHistory\<close> left. \<open>updateHistory\<close> has no suspension
  point while \<open>PERSIST_HISTORY\<close> is off, and the effect of \<open>cleanup\<close> on the folder is
  recorded where it is started.\<close>

definition publishFailed ::
  "AzurePublisher \<Rightarrow> string \<Rightarrow> string \<Rightarrow> string \<Rightarrow> string \<Rightarrow> nat \<Rightarrow> Metadata \<Rightarrow> string
     \<Rightarrow> ref \<times> AzurePublisher" where
  "publishFailed s botId profileName jobId resourcekey now metadata errMessage =
     (let s1 = s\<lparr>logMessages := logMessages s @ [errMessage]\<rparr>;
          (response, s2) = newObject s1
             \<lparr>status = 500,
              result = \<lparr>r_id = jobId, time = now, message = ''Publish Fail'',
                        log = join newline (logMessages s1),
                        comment = md_comment metadata\<rparr>\<rparr>;
          s3 = snd (updateHistory s2 botId profileName (toHistory (objects s2 response)));
          s4 = cleanup s3 resourcekey
      in (response, s4))"

text \<open>\<open>publish\<close> up to its \<open>return\<close>, taken as one step; \<open>Inl\<close> is a call that rejects.
  \<open>jobId\<close> is the result of \<open>uuid.v4()\<close> and \<open>now\<close> the clock. The hash and \<open>init\<close> come
  before the \<open>try\<close> block, so their errors reject the call; every error inside the
  block reaches the \<open>catch\<close> block. The bot files, the settings and the merge of the
  provisioning data change only the content of the staging folder, which the state
  does not keep. \<open>provision\<close> is an object or \<open>undefined\<close>. On the accepting path the
  deployment has been started and not awaited: its completion is \<open>createAndDeploy\<close>,
  run later on the state of that moment.\<close>

definition publish ::
  "(string option list \<Rightarrow> string option \<Rightarrow> string option) \<Rightarrow> string \<Rightarrow> nat \<Rightarrow> FileOutcomes
     \<Rightarrow> AzurePublisher \<Rightarrow> PublishConfig \<Rightarrow> Project \<Rightarrow> Metadata
     \<Rightarrow> error + ref \<times> AzurePublisher" where
  "publish hash jobId now files s config project metadata =
     (let botId = p_id project
      in case resourceKeyOf hash config project of
           None \<Rightarrow> Inl TypeError
         | Some resourcekey \<Rightarrow>
             (case initError files of
                Some m \<Rightarrow> Inl (IOError m)
              | None \<Rightarrow>
                  if inherited botId then Inl Unmodelled
                  else
                    (let s0 = init s (runtimeCodePathOf config project) resourcekey
                     in if \<not> truthy (accessToken config) then
                          Inr (publishFailed s0 botId (name config) jobId resourcekey now metadata
                                 accessTokenMissing)
                        else if provision config = None then
                          Inr (publishFailed s0 botId (name config) jobId resourcekey now metadata
                                 provisionMissing)
                        else
                          (case mergeError files of
                             Some m \<Rightarrow>
                               Inr (publishFailed s0 botId (name config) jobId resourcekey now
                                      metadata m)
                           | None \<Rightarrow>
                               (let s1 = s0\<lparr>azDeployer :=
                                              Some \<lparr>subId = subscriptionID config,
                                                    d_accessToken = the (accessToken config),
                                                    projFolder = resourcekey\<rparr>\<rparr>;
                                    s2 = s1\<lparr>logMessages := [''Publish starting...'']\<rparr>;
                                    (response, s3) = newObject s2
                                       \<lparr>status = 202,
                                        result = \<lparr>r_id = jobId, time = now,
                                                  message = ''Accepted for publishing.'',
                                                  log = join newline (logMessages s2),
                                                  comment = md_comment metadata\<rparr>\<rparr>
                                in case addLoadingStatus s3 botId (name config) response of
                                     (Some e, s4) \<Rightarrow>
                                       Inr (publishFailed s4 botId (name config) jobId resourcekey
                                              now metadata (errorMessage e))
                                   | (None, s4) \<Rightarrow> Inr (response, s4))))))"

text \<open>What \<open>getStatus\<close> returns: the job record itself, or a new envelope
  \<open>{ status, result }\<close> whose result is a copy of a history entry or the object
  \<open>{ message }\<close>. Where \<open>getHistory\<close> gave a member with a positive \<open>length\<close>, its element
  \<open>0\<close> is \<open>undefined\<close> and reading \<open>.status\<close> of it throws.\<close>

datatype payload = Entry HistoryEntry | Message string

datatype reply = Record ref | Envelope int payload

definition getStatus :: "AzurePublisher \<Rightarrow> PublishConfig \<Rightarrow> Project \<Rightarrow> error + reply" where
  "getStatus s config project =
     (let profileName = name config;
          botId = p_id project
      in case getLoadingStatus s botId profileName [] of
           Inl e \<Rightarrow> Inl e
         | Inr (Some st) \<Rightarrow> Inr (Record st)
         | Inr None \<Rightarrow>
             (case getHistory s botId profileName of
                Inl e \<Rightarrow> Inl e
              | Inr (Array current) \<Rightarrow>
                  if length current > 0
                  then Inr (Envelope (h_status (current ! 0)) (Entry (current ! 0)))
                  else Inr (Envelope 404 (Message ''bot not published''))
              | Inr (ObjectMember k) \<Rightarrow>
                  if memberLength k > 0 then Inl TypeError
                  else Inr (Envelope 404 (Message ''bot not published''))))"

definition history ::
  "AzurePublisher \<Rightarrow> PublishConfig \<Rightarrow> Project \<Rightarrow> error + HistoryEntry jsvalue" where
  "history s config project = getHistory s (p_id project) (name config)"

text \<open>Whether a text contains another one.\<close>

fun mentions :: "string \<Rightarrow> string \<Rightarrow> bool" where
  "mentions needle [] = (needle = [])"
| "mentions needle (c # cs) = (take (length needle) (c # cs) = needle \<or> mentions needle cs)"

subsection \<open>Example inputs\<close>

text \<open>Concrete inputs at which the properties below are evaluated: one bot, the
  profiles \<open>prod\<close> and \<open>test\<close>, a subscription id that is a UUID. \<open>exHash\<close> stands for
  \<open>uuid.v5\<close>: it throws for a namespace that has not the shape of a UUID and gives one
  fixed key otherwise.\<close>

definition uuidShaped :: "string \<Rightarrow> bool" where
  "uuidShaped str =
     (map (\<lambda>c. if c = CHR ''-'' then CHR ''-''
               else if c \<in> set ''0123456789abcdefABCDEF'' then CHR ''x'' else CHR ''?'') str
        = ''xxxxxxxx-xxxx-xxxx-xxxx-xxxxxxxxxxxx'')"

definition exKey :: string where
  "exKey = ''a6edc906-2f9f-5fb2-a373-efac406f0ef2''"

definition exHash :: "string option list \<Rightarrow> string option \<Rightarrow> string option" where
  "exHash xs ns =
     (case ns of None \<Rightarrow> None | Some n \<Rightarrow> if uuidShaped n then Some exKey else None)"

definition exFilesOk :: FileOutcomes where
  "exFilesOk = \<lparr>initError = None, mergeError = None\<rparr>"

definition exProject :: Project where
  "exProject = \<lparr>p_id = ''bot1'', p_name = Some ''Bot'', runtime = None\<rparr>"

definition exMetadata :: Metadata where
  "exMetadata = \<lparr>md_comment = Some ''first''\<rparr>"

definition exConfig :: "string \<Rightarrow> string option \<Rightarrow> PublishConfig" where
  "exConfig profile token =
     \<lparr>name = profile, templatePath = ''tpl'',
      subscriptionID = Some ''9b1deb4d-3b7d-4bad-9bdd-2b0d7b3dcb6d'',
      publishName = Some ''pub'', environment = Some ''dev'', location = Some ''west'',
      luisAuthoringKey = None, luisAuthoringRegion = None,
      provision = Some [(''MicrosoftAppPassword'', ''pw'')], accessToken = token\<rparr>"

text \<open>One accepted publish for \<open>(bot1, prod)\<close>, and a second one after it.\<close>

definition exOneJob :: AzurePublisher where
  "exOneJob =
     snd (projr (publish exHash ''A'' 1 exFilesOk (newAzurePublisher None)
                   (exConfig ''prod'' (Some ''tok'')) exProject exMetadata))"

definition exTwoJobs :: AzurePublisher where
  "exTwoJobs =
     snd (projr (publish exHash ''B'' 2 exFilesOk exOneJob (exConfig ''prod'' (Some ''tok''))
                   exProject exMetadata))"

text \<open>A publish for \<open>(bot1, prod)\<close> whose profile has no access token.\<close>

definition exRejected :: "ref \<times> AzurePublisher" where
  "exRejected =
     projr (publish exHash ''A'' 1 exFilesOk (newAzurePublisher None) (exConfig ''prod'' None)
              exProject exMetadata)"

text \<open>A publish for \<open>(bot1, prod)\<close> with an access token and no provisioning data.\<close>

definition exNoProvision :: "ref \<times> AzurePublisher" where
  "exNoProvision =
     projr (publish exHash ''A'' 1 exFilesOk (newAzurePublisher None)
              ((exConfig ''prod'' (Some ''tok''))\<lparr>provision := None\<rparr>) exProject exMetadata)"

text \<open>A rejected publish for \<open>(bot1, test)\<close> followed by an accepted one for
  \<open>(bot1, prod)\<close>: the history of \<open>(bot1, test)\<close> has an entry, and the bot has a
  container in the table that holds no list for \<open>test\<close>.\<close>

definition exOtherProfile :: AzurePublisher where
  "exOtherProfile =
     snd (projr (publish exHash ''B'' 2 exFilesOk
                   (snd (projr (publish exHash ''A'' 1 exFilesOk (newAzurePublisher None)
                                  (exConfig ''test'' None) exProject exMetadata)))
                   (exConfig ''prod'' (Some ''tok'')) exProject exMetadata))"

text \<open>The state \<open>exOneJob\<close> with one more record in the store that is in no table.\<close>

definition exDetached :: AzurePublisher where
  "exDetached =
     snd (newObject exOneJob
            \<lparr>status = 202,
             result = \<lparr>r_id = ''B'', time = 2, message = ''Accepted for publishing.'',
                       log = ''Publish starting...'', comment = None\<rparr>\<rparr>)"

definition exEntry :: "string \<Rightarrow> HistoryEntry" where
  "exEntry j =
     \<lparr>h_status = 200, h_id = j, h_time = 1, h_message = ''Success'', h_log = [],
      h_comment = None\<rparr>"

text \<open>The same publishes with a subscription id that is no UUID, with a failing read
  of the deployment settings, and with the profile name \<open>constructor\<close>.\<close>

definition exNoUuid :: "string option \<Rightarrow> PublishConfig" where
  "exNoUuid token = (exConfig ''prod'' token)\<lparr>subscriptionID := Some ''sub''\<rparr>"

definition exMergeFails :: FileOutcomes where
  "exMergeFails = \<lparr>initError = None, mergeError = Some ''ENOENT: no such file or directory''\<rparr>"

definition exInitFails :: FileOutcomes where
  "exInitFails = \<lparr>initError = Some ''EACCES: permission denied'', mergeError = None\<rparr>"

text \<open>An accepted profile whose deployment settings cannot be read, and a profile
  named \<open>constructor\<close> without access token.\<close>

definition exMergeRejected :: "ref \<times> AzurePublisher" where
  "exMergeRejected =
     projr (publish exHash ''A'' 1 exMergeFails (newAzurePublisher None)
              (exConfig ''prod'' (Some ''tok'')) exProject exMetadata)"

definition exInheritedProfile :: "ref \<times> AzurePublisher" where
  "exInheritedProfile =
     projr (publish exHash ''A'' 1 exFilesOk (newAzurePublisher None)
              (exConfig ''constructor'' None) exProject exMetadata)"

lemmas model_defs =
  publish_def publishFailed_def newObject_def addLoadingStatus_def init_def cleanup_def
  updateHistory_def getHistory_def removeLoadingStatus_def getLoadingStatus_def jobsOf_def
  resourceKeyOf_def runtimeCodePathOf_def truthy_def newAzurePublisher_def PERSIST_HISTORY_def
  toHistory_def getStatus_def findIndex_def at_def slice_def
  sliceFrom_def relativeIndex_def createAndDeploy_def deployFailed_def settle_def
  accessTokenMissing_def newline_def readProp_def inherited_def objectPrototypeNames_def
  memberLength_def errorMessage_def Let_def

lemmas ex_defs =
  exHash_def exKey_def uuidShaped_def exFilesOk_def exProject_def exMetadata_def exConfig_def
  exOneJob_def exTwoJobs_def exRejected_def exNoProvision_def exOtherProfile_def
  exDetached_def exEntry_def exNoUuid_def exMergeFails_def exInitFails_def
  exMergeRejected_def exInheritedProfile_def

section \<open>Properties\<close>

subsection \<open>The array primitives\<close>

lemma findIndexFrom_none: "\<forall>x\<in>set xs. \<not> P x \<Longrightarrow> findIndexFrom P k xs = -1"
  by (induction xs arbitrary: k) auto

lemma findIndexFrom_takeWhile:
  "\<exists>x\<in>set xs. P x \<Longrightarrow> findIndexFrom P k xs = k + int (length (takeWhile (\<lambda>x. \<not> P x) xs))"
proof (induction xs arbitrary: k)
  case Nil
  then show ?case by simp
next
  case (Cons a xs)
  show ?case
  proof (cases "P a")
    case True
    then show ?thesis by simp
  next
    case False
    with Cons.prems have "\<exists>x\<in>set xs. P x" by auto
    from Cons.IH [OF this, of "k + 1"] False show ?thesis by simp
  qed
qed

lemma findIndex_none: "\<forall>x\<in>set xs. \<not> P x \<Longrightarrow> findIndex P xs = -1"
  by (simp add: findIndex_def findIndexFrom_none)

lemma findIndex_found:
  "\<exists>x\<in>set xs. P x \<Longrightarrow> findIndex P xs = int (length (takeWhile (\<lambda>x. \<not> P x) xs))"
  by (simp add: findIndex_def findIndexFrom_takeWhile)

lemma slice_prefix: "slice xs 0 (int n) = take n xs"
  by (simp add: slice_def relativeIndex_def Let_def min_def)

lemma sliceFrom_suffix: "sliceFrom xs (int n) = drop n xs"
  by (simp add: sliceFrom_def slice_def relativeIndex_def Let_def min_def)

lemma slice_minus_one: "slice xs 0 (-1) = butlast xs"
proof -
  have "nat (max (int (length xs) + - 1) 0) = length xs - 1" by auto
  then show ?thesis
    by (simp add: slice_def relativeIndex_def Let_def butlast_conv_take)
qed

lemma at_nat: "n < length xs \<Longrightarrow> at xs (int n) = Some (xs ! n)"
  by (simp add: at_def)

lemma at_minus_one: "at xs (-1) = None"
  by (simp add: at_def)

lemma at_last: "xs \<noteq> [] \<Longrightarrow> at xs (int (length xs) - 1) = Some (last xs)"
  by (cases xs rule: rev_cases) (auto simp add: at_def nth_append)

lemma splice_absent:
  "\<forall>x\<in>set xs. \<not> P x \<Longrightarrow>
     slice xs 0 (findIndex P xs) @ sliceFrom xs (findIndex P xs + 1) = butlast xs @ xs"
  using sliceFrom_suffix [of xs 0] by (simp add: findIndex_none slice_minus_one)

lemma splice_found:
  assumes "\<exists>x\<in>set xs. P x"
  shows "slice xs 0 (findIndex P xs) @ sliceFrom xs (findIndex P xs + 1)
           = takeWhile (\<lambda>x. \<not> P x) xs @ tl (dropWhile (\<lambda>x. \<not> P x) xs)"
proof -
  let ?n = "length (takeWhile (\<lambda>x. \<not> P x) xs)"
  have "findIndex P xs + 1 = int (Suc ?n)"
    using assms by (simp add: findIndex_found)
  then have "sliceFrom xs (findIndex P xs + 1) = drop (Suc ?n) xs"
    by (simp only: sliceFrom_suffix)
  moreover have "slice xs 0 (findIndex P xs) = take ?n xs"
    using assms by (simp add: findIndex_found slice_prefix)
  moreover have "take ?n xs = takeWhile (\<lambda>x. \<not> P x) xs"
    by (rule takeWhile_eq_take [symmetric])
  moreover have "drop (Suc ?n) xs = tl (dropWhile (\<lambda>x. \<not> P x) xs)"
  proof -
    have "tl (dropWhile (\<lambda>x. \<not> P x) xs) = tl (drop ?n xs)"
      by (rule arg_cong [OF dropWhile_eq_drop])
    also have "\<dots> = drop (Suc ?n) xs"
      by (simp add: drop_Suc tl_drop)
    finally show ?thesis by (rule sym)
  qed
  ultimately show ?thesis by simp
qed

lemma splice_keeps:
  assumes "y \<in> set xs" and "\<not> P y"
  shows "y \<in> set (slice xs 0 (findIndex P xs) @ sliceFrom xs (findIndex P xs + 1))"
proof (cases "\<exists>x\<in>set xs. P x")
  case True
  have "y \<in> set (takeWhile (\<lambda>x. \<not> P x) xs @ tl (dropWhile (\<lambda>x. \<not> P x) xs))"
    using assms by (induction xs) auto
  then show ?thesis using True by (simp only: splice_found)
next
  case False
  then have "\<forall>x\<in>set xs. \<not> P x" by simp
  then show ?thesis using assms by (simp only: splice_absent) simp
qed

lemma splice_fresh:
  assumes "\<forall>x\<in>set xs. \<not> P x" and "P a"
  shows "slice (xs @ [a]) 0 (findIndex P (xs @ [a])) @ sliceFrom (xs @ [a]) (findIndex P (xs @ [a]) + 1) = xs"
    and "at (xs @ [a]) (findIndex P (xs @ [a])) = Some a"
proof -
  have tw: "takeWhile (\<lambda>x. \<not> P x) (xs @ [a]) = xs"
    using assms by simp
  have ex: "\<exists>x\<in>set (xs @ [a]). P x" using assms by simp
  have dw: "dropWhile (\<lambda>x. \<not> P x) (xs @ [a]) = [a]"
    using assms by simp
  show "slice (xs @ [a]) 0 (findIndex P (xs @ [a])) @ sliceFrom (xs @ [a]) (findIndex P (xs @ [a]) + 1) = xs"
    by (simp only: splice_found [OF ex] tw dw) simp
  have "findIndex P (xs @ [a]) = int (length xs)"
    using findIndex_found [OF ex] by (simp only: tw)
  then show "at (xs @ [a]) (findIndex P (xs @ [a])) = Some a"
    by (simp add: at_def)
qed

subsection \<open>Keys that are not inherited names\<close>

lemma readProp_ordinary:
  "\<not> inherited k \<Longrightarrow> readProp obj k = (case obj k of None \<Rightarrow> Undefined | Some v \<Rightarrow> Own v)"
  by (simp add: readProp_def)

lemma readProp_Own: "readProp obj k = Own v \<Longrightarrow> \<not> inherited k \<and> obj k = Some v"
  by (auto simp add: readProp_def split: if_splits option.splits)

lemma not_inherited_bot1: "\<not> inherited ''bot1''"
  and not_inherited_prod: "\<not> inherited ''prod''"
  and not_inherited_test: "\<not> inherited ''test''"
  and inherited_constructor: "inherited ''constructor''"
  by (simp_all add: inherited_def objectPrototypeNames_def)

subsection \<open>The job status table\<close>

lemma jobsOf_cong: "publishingBots s = publishingBots t \<Longrightarrow> jobsOf s b p = jobsOf t b p"
  by (simp add: jobsOf_def)

lemma jobsOf_present:
  assumes "r \<in> set (jobsOf s b p)"
  shows "\<not> inherited b \<and> \<not> inherited p
           \<and> (\<exists>m. publishingBots s b = Some m \<and> m p = Some (jobsOf s b p))"
proof -
  have b: "\<not> inherited b" using assms by (auto simp add: jobsOf_def split: if_splits)
  obtain m where m: "publishingBots s b = Some m"
    using assms b by (cases "publishingBots s b") (simp_all add: jobsOf_def)
  have p: "\<not> inherited p"
    using assms b m by (auto simp add: jobsOf_def readProp_def split: if_splits)
  have "m p = Some (jobsOf s b p)"
    using assms b m p by (cases "m p") (simp_all add: jobsOf_def readProp_def)
  with b p m show ?thesis by simp
qed

lemma jobsOf_ordinary:
  assumes "\<not> inherited b" and "\<not> inherited p"
  shows "jobsOf s b p =
           (case publishingBots s b of
              None \<Rightarrow> []
            | Some m \<Rightarrow> (case m p of None \<Rightarrow> [] | Some jobs \<Rightarrow> jobs))"
  using assms by (simp add: jobsOf_def readProp_def split: option.splits)

lemma addLoadingStatus_ordinary:
  assumes "\<not> inherited b" and "\<not> inherited p"
  shows "fst (addLoadingStatus s b p r) = None"
    and "jobsOf (snd (addLoadingStatus s b p r)) b p = jobsOf s b p @ [r]"
    and "objects (snd (addLoadingStatus s b p r)) = objects s"
    and "histories (snd (addLoadingStatus s b p r)) = histories s"
    and "\<exists>m. publishingBots (snd (addLoadingStatus s b p r)) b = Some m
              \<and> m p = Some (jobsOf s b p @ [r])"
  using assms
  by (simp_all add: addLoadingStatus_def jobsOf_def readProp_def Let_def split: option.splits)

lemma getLoadingStatus_addLoadingStatus:
  assumes "\<not> inherited b" and "\<not> inherited p"
  shows "getLoadingStatus (snd (addLoadingStatus s b p r)) b p [] = Inr (Some r)"
  using assms
  by (simp add: getLoadingStatus_def addLoadingStatus_def readProp_def Let_def at_def
        split: option.splits)

lemma removeLoadingStatus_present:
  assumes "\<not> inherited b" and "\<not> inherited p"
    and "publishingBots s b = Some m" and "m p = Some jobs"
  shows "fst (removeLoadingStatus s b p j)
           = Inr (at jobs (findIndex (\<lambda>item. r_id (result (objects s item)) = j) jobs))"
    and "jobsOf (snd (removeLoadingStatus s b p j)) b p =
           slice jobs 0 (findIndex (\<lambda>item. r_id (result (objects s item)) = j) jobs)
           @ sliceFrom jobs (findIndex (\<lambda>item. r_id (result (objects s item)) = j) jobs + 1)"
    and "objects (snd (removeLoadingStatus s b p j)) = objects s"
    and "histories (snd (removeLoadingStatus s b p j)) = histories s"
  using assms by (simp_all add: removeLoadingStatus_def jobsOf_def readProp_def Let_def)

text \<open>Where either container is missing, \<open>removeLoadingStatus\<close> does nothing.\<close>

lemma removeLoadingStatus_absent_key:
  assumes "\<not> inherited b" and "\<not> inherited p"
    and "publishingBots s b = None \<or> (\<exists>m. publishingBots s b = Some m \<and> m p = None)"
  shows "removeLoadingStatus s b p j = (Inr None, s)"
  using assms by (auto simp add: removeLoadingStatus_def readProp_def)

text \<open>In any state, \<open>removeLoadingStatus\<close> keeps the records of the key that have
  another job id, and writes to no record.\<close>

lemma removeLoadingStatus_keeps_other:
  assumes "r \<in> set (jobsOf s b p)" and "r_id (result (objects s r)) \<noteq> j"
  shows "r \<in> set (jobsOf (snd (removeLoadingStatus s b p j)) b p)"
    and "objects (snd (removeLoadingStatus s b p j)) = objects s"
proof -
  obtain m where o: "\<not> inherited b" "\<not> inherited p"
    and m: "publishingBots s b = Some m" "m p = Some (jobsOf s b p)"
    using jobsOf_present [OF assms(1)] by blast
  have other: "\<not> r_id (result (objects s r)) = j" using assms(2) by simp
  show "r \<in> set (jobsOf (snd (removeLoadingStatus s b p j)) b p)"
    unfolding removeLoadingStatus_present(2) [OF o m] using assms(1) other by (rule splice_keeps)
  show "objects (snd (removeLoadingStatus s b p j)) = objects s"
    by (rule removeLoadingStatus_present(3) [OF o m])
qed

text \<open>\<open>getLoadingStatus\<close> by cases on the two containers. It returns no state: it is
  a read.\<close>

lemma getLoadingStatus_absent_bot:
  "\<not> inherited b \<Longrightarrow> publishingBots s b = None \<Longrightarrow> getLoadingStatus s b p j = Inr None"
  by (simp add: getLoadingStatus_def)

lemma getLoadingStatus_absent_profile:
  "\<not> inherited b \<Longrightarrow> \<not> inherited p \<Longrightarrow> publishingBots s b = Some m \<Longrightarrow> m p = None
     \<Longrightarrow> getLoadingStatus s b p j = Inl TypeError"
  by (simp add: getLoadingStatus_def readProp_def)

lemma getLoadingStatus_empty:
  "\<not> inherited b \<Longrightarrow> \<not> inherited p \<Longrightarrow> publishingBots s b = Some m \<Longrightarrow> m p = Some []
     \<Longrightarrow> getLoadingStatus s b p j = Inr None"
  by (simp add: getLoadingStatus_def readProp_def)

lemma getLoadingStatus_present:
  assumes "\<not> inherited b" and "\<not> inherited p"
    and "publishingBots s b = Some m" and "m p = Some jobs" and "jobs \<noteq> []"
  shows "getLoadingStatus s b p j =
           (if j \<noteq> [] then Inr (find (\<lambda>item. r_id (result (objects s item)) = j) jobs)
            else Inr (Some (last jobs)))"
  using assms by (simp add: getLoadingStatus_def readProp_def at_last)

text \<open>
  \<^bold>\<open>C1\<close> (as amended). Let neither the bot id nor the profile name be an inherited
  name, let the list of the key exist, and let no record in it have the job id. Then
  \<open>removeLoadingStatus\<close> returns \<open>undefined\<close> without throwing, every record of the list
  stays in the list, and a list of at most one record is left as it is. What becomes
  of the order and number of the records of a longer list is not part of the
  statement: \<open>createAndDeploy\<close>, the only caller, passes a job id that
  \<open>getLoadingStatus\<close> has just found.
\<close>

theorem removeLoadingStatus_absent_id:
  assumes "\<not> inherited b" and "\<not> inherited p"
    and "publishingBots s b = Some m" and "m p = Some jobs"
    and "\<forall>x\<in>set jobs. r_id (result (objects s x)) \<noteq> j"
  shows "fst (removeLoadingStatus s b p j) = Inr None
           \<and> set (jobsOf (snd (removeLoadingStatus s b p j)) b p) = set jobs
           \<and> (length jobs \<le> 1 \<longrightarrow> jobsOf (snd (removeLoadingStatus s b p j)) b p = jobs)
           \<and> objects (snd (removeLoadingStatus s b p j)) = objects s
           \<and> histories (snd (removeLoadingStatus s b p j)) = histories s"
proof -
  let ?P = "\<lambda>item. r_id (result (objects s item)) = j"
  have none: "\<forall>x\<in>set jobs. \<not> ?P x" using assms(5) by simp
  have ret: "fst (removeLoadingStatus s b p j) = Inr None"
    by (simp only: removeLoadingStatus_present(1) [OF assms(1-4)] findIndex_none [OF none]
          at_minus_one)
  have after: "jobsOf (snd (removeLoadingStatus s b p j)) b p = butlast jobs @ jobs"
    by (simp only: removeLoadingStatus_present(2) [OF assms(1-4)] splice_absent [OF none])
  have same: "set (butlast jobs @ jobs) = set jobs"
    using in_set_butlastD by fastforce
  have short: "length jobs \<le> 1 \<longrightarrow> butlast jobs @ jobs = jobs"
    by (cases jobs) auto
  show ?thesis
    using ret same short
    by (simp add: after removeLoadingStatus_present(3,4) [OF assms(1-4)])
qed

theorem removeLoadingStatus_absent_id_witness:
  "\<not> inherited ''bot1'' \<and> \<not> inherited ''prod''
   \<and> jobsOf exOneJob ''bot1'' ''prod'' = [0]
   \<and> r_id (result (objects exOneJob 0)) = ''A''
   \<and> fst (removeLoadingStatus exOneJob ''bot1'' ''prod'' ''C'') = Inr None
   \<and> jobsOf (snd (removeLoadingStatus exOneJob ''bot1'' ''prod'' ''C'')) ''bot1'' ''prod'' = [0]"
proof -
  have jobs: "jobsOf exOneJob ''bot1'' ''prod'' = [0]"
    by (simp add: model_defs ex_defs)
  have id0: "r_id (result (objects exOneJob 0)) = ''A''"
    by (simp add: model_defs ex_defs)
  have "0 \<in> set (jobsOf exOneJob ''bot1'' ''prod'')" by (simp add: jobs)
  from jobsOf_present [OF this]
  obtain m where m: "publishingBots exOneJob ''bot1'' = Some m" "m ''prod'' = Some [0]"
    by (auto simp add: jobs)
  have none: "\<forall>x\<in>set [0]. r_id (result (objects exOneJob x)) \<noteq> ''C''"
    by (simp add: id0)
  from removeLoadingStatus_absent_id [OF not_inherited_bot1 not_inherited_prod m none]
  have "fst (removeLoadingStatus exOneJob ''bot1'' ''prod'' ''C'') = Inr None
     \<and> jobsOf (snd (removeLoadingStatus exOneJob ''bot1'' ''prod'' ''C'')) ''bot1'' ''prod'' = [0]"
    by simp
  with jobs id0 not_inherited_bot1 not_inherited_prod show ?thesis by simp
qed

text \<open>The claim as first stated has the list unchanged for every list. After two
  accepted publishes for \<open>(bot1, prod)\<close>, with job ids \<open>A\<close> and \<open>B\<close>, the call with the
  unknown job id \<open>C\<close> returns \<open>undefined\<close> and turns the list of records \<open>0, 1\<close> into
  \<open>0, 0, 1\<close>: the splice is taken at the index \<open>-1\<close>.\<close>

theorem removeLoadingStatus_unknown_id_duplicates:
  "map (\<lambda>a. r_id (result (objects exTwoJobs a))) (jobsOf exTwoJobs ''bot1'' ''prod'') = [''A'', ''B'']
   \<and> jobsOf exTwoJobs ''bot1'' ''prod'' = [0, 1]
   \<and> fst (removeLoadingStatus exTwoJobs ''bot1'' ''prod'' ''C'') = Inr None
   \<and> jobsOf (snd (removeLoadingStatus exTwoJobs ''bot1'' ''prod'' ''C'')) ''bot1'' ''prod'' = [0, 0, 1]"
  by (simp add: model_defs ex_defs)

text \<open>
  \<^bold>\<open>C5\<close> (as amended). Let neither the bot id nor the profile name be an inherited
  name. For every state of the job status table and every record whose job id no
  record of the key's list has: \<open>addLoadingStatus\<close> of the record returns normally, and
  \<open>removeLoadingStatus\<close> with the record's job id then returns the record that was
  inserted and leaves the key's list as it was before the two calls, so also at its
  prior length.
\<close>

theorem add_then_remove_restores:
  assumes ord: "\<not> inherited b" "\<not> inherited p"
    and fresh:
      "\<forall>a \<in> set (jobsOf s b p). r_id (result (objects s a)) \<noteq> r_id (result (objects s r))"
  shows "\<exists>s1 s'. addLoadingStatus s b p r = (None, s1)
           \<and> removeLoadingStatus s1 b p (r_id (result (objects s r))) = (Inr (Some r), s')
           \<and> jobsOf s' b p = jobsOf s b p
           \<and> length (jobsOf s' b p) = length (jobsOf s b p)"
proof -
  let ?s1 = "snd (addLoadingStatus s b p r)"
  let ?j = "r_id (result (objects s r))"
  let ?P = "\<lambda>item. r_id (result (objects ?s1 item)) = ?j"
  note add = addLoadingStatus_ordinary [OF ord, of s r]
  have run1: "addLoadingStatus s b p r = (None, ?s1)"
    using add(1) by (simp add: prod_eq_iff)
  obtain m where m: "publishingBots ?s1 b = Some m" "m p = Some (jobsOf s b p @ [r])"
    using add(5) by blast
  have none: "\<forall>x\<in>set (jobsOf s b p). \<not> ?P x"
    using fresh by (simp add: add(3))
  have hit: "?P r" by (simp add: add(3))
  have ret: "fst (removeLoadingStatus ?s1 b p ?j) = Inr (Some r)"
    by (simp only: removeLoadingStatus_present(1) [OF ord m] splice_fresh(2) [OF none hit])
  have after: "jobsOf (snd (removeLoadingStatus ?s1 b p ?j)) b p = jobsOf s b p"
    by (simp only: removeLoadingStatus_present(2) [OF ord m] splice_fresh(1) [OF none hit])
  have run2: "removeLoadingStatus ?s1 b p ?j = (Inr (Some r), snd (removeLoadingStatus ?s1 b p ?j))"
    using ret by (simp add: prod_eq_iff)
  show ?thesis
    using run1 run2 after by metis
qed

theorem add_then_remove_restores_witness:
  "\<not> inherited ''bot1'' \<and> \<not> inherited ''prod''
   \<and> map (\<lambda>a. r_id (result (objects exDetached a))) (jobsOf exDetached ''bot1'' ''prod'') = [''A'']
   \<and> r_id (result (objects exDetached 1)) = ''B''
   \<and> jobsOf exDetached ''bot1'' ''prod'' = [0]
   \<and> jobsOf (snd (addLoadingStatus exDetached ''bot1'' ''prod'' 1)) ''bot1'' ''prod'' = [0, 1]
   \<and> fst (removeLoadingStatus (snd (addLoadingStatus exDetached ''bot1'' ''prod'' 1))
            ''bot1'' ''prod'' ''B'') = Inr (Some 1)
   \<and> jobsOf (snd (removeLoadingStatus (snd (addLoadingStatus exDetached ''bot1'' ''prod'' 1))
                    ''bot1'' ''prod'' ''B'')) ''bot1'' ''prod'' = [0]"
proof -
  have jobs: "jobsOf exDetached ''bot1'' ''prod'' = [0]"
    by (simp add: model_defs ex_defs)
  have id0: "r_id (result (objects exDetached 0)) = ''A''"
    by (simp add: model_defs ex_defs)
  have id1: "r_id (result (objects exDetached (Suc 0))) = ''B''"
    by (simp add: model_defs ex_defs)
  have fresh: "\<forall>a \<in> set (jobsOf exDetached ''bot1'' ''prod'').
       r_id (result (objects exDetached a)) \<noteq> r_id (result (objects exDetached 1))"
    by (simp add: jobs id0 id1)
  have added: "jobsOf (snd (addLoadingStatus exDetached ''bot1'' ''prod'' 1)) ''bot1'' ''prod'' = [0, 1]"
    by (simp only: addLoadingStatus_ordinary(2) [OF not_inherited_bot1 not_inherited_prod]
          jobs append.simps)
  from add_then_remove_restores [OF not_inherited_bot1 not_inherited_prod fresh]
  obtain s1 s' where run:
    "addLoadingStatus exDetached ''bot1'' ''prod'' 1 = (None, s1)"
    "removeLoadingStatus s1 ''bot1'' ''prod'' (r_id (result (objects exDetached 1)))
       = (Inr (Some 1), s')"
    "jobsOf s' ''bot1'' ''prod'' = jobsOf exDetached ''bot1'' ''prod''"
    by blast
  have s1: "s1 = snd (addLoadingStatus exDetached ''bot1'' ''prod'' 1)"
    using run(1) by simp
  have "fst (removeLoadingStatus (snd (addLoadingStatus exDetached ''bot1'' ''prod'' 1))
            ''bot1'' ''prod'' ''B'') = Inr (Some 1)
   \<and> jobsOf (snd (removeLoadingStatus (snd (addLoadingStatus exDetached ''bot1'' ''prod'' 1))
                    ''bot1'' ''prod'' ''B'')) ''bot1'' ''prod'' = [0]"
    using run(2,3) by (simp add: s1 id1 jobs)
  moreover have "map (\<lambda>a. r_id (result (objects exDetached a))) (jobsOf exDetached ''bot1'' ''prod'')
                   = [''A'']"
    by (simp add: jobs id0)
  moreover have "r_id (result (objects exDetached 1)) = ''B''"
    by (simp add: id1)
  ultimately show ?thesis
    using jobs added not_inherited_bot1 not_inherited_prod by (simp only: simp_thms)
qed

text \<open>The claim as first stated is for every key. Under the profile name
  \<open>constructor\<close> the read in \<open>addLoadingStatus\<close> finds the member of \<open>Object.prototype\<close>,
  no list is created, and \<open>push\<close> is not a function: the call throws, the key has no
  list afterwards, and \<open>removeLoadingStatus\<close> for the key throws as well.\<close>

theorem add_then_remove_inherited_profile_counterexample:
  "fst (addLoadingStatus exDetached ''bot1'' ''constructor'' 1) = Some TypeError
   \<and> jobsOf (snd (addLoadingStatus exDetached ''bot1'' ''constructor'' 1)) ''bot1'' ''constructor''
       = []
   \<and> fst (removeLoadingStatus (snd (addLoadingStatus exDetached ''bot1'' ''constructor'' 1))
            ''bot1'' ''constructor'' ''B'') = Inl TypeError"
  by (simp add: model_defs ex_defs)

subsection \<open>The history store\<close>

lemma getHistory_cong: "histories s = histories t \<Longrightarrow> getHistory s b p = getHistory t b p"
  by (simp add: getHistory_def)

lemma getHistory_ordinary:
  assumes "\<not> inherited b" and "\<not> inherited p"
  shows "getHistory s b p =
           Inr (Array (case histories s b of
                         None \<Rightarrow> []
                       | Some m \<Rightarrow> (case m p of None \<Rightarrow> [] | Some es \<Rightarrow> es)))"
  using assms by (simp add: getHistory_def readProp_def split: option.splits)

lemma updateHistory_ordinary:
  assumes "\<not> inherited b" and "\<not> inherited p" and "getHistory s b p = Inr (Array old)"
  shows "fst (updateHistory s b p e) = None"
    and "getHistory (snd (updateHistory s b p e)) b p = Inr (Array (e # old))"
    and "publishingBots (snd (updateHistory s b p e)) = publishingBots s"
    and "objects (snd (updateHistory s b p e)) = objects s"
    and "logMessages (snd (updateHistory s b p e)) = logMessages s"
    and "folders (snd (updateHistory s b p e)) = folders s"
  using assms
  by (auto simp add: updateHistory_def getHistory_def readProp_def PERSIST_HISTORY_def Let_def
        split: option.splits)

lemma getHistory_fold_updateHistory:
  assumes "\<not> inherited b" and "\<not> inherited p" and "getHistory s b p = Inr (Array old)"
  shows "getHistory (fold (\<lambda>e st. snd (updateHistory st b p e)) es s) b p
           = Inr (Array (rev es @ old))"
  using assms(3)
proof (induction es arbitrary: s old)
  case Nil
  then show ?case by simp
next
  case (Cons e es)
  have "getHistory (snd (updateHistory s b p e)) b p = Inr (Array (e # old))"
    by (rule updateHistory_ordinary(2) [OF assms(1,2) Cons.prems])
  from Cons.IH [OF this] show ?case by simp
qed

text \<open>
  \<^bold>\<open>C6\<close> (as amended). Let neither the bot id nor the profile name be an inherited
  name. Then \<open>getHistory\<close> returns a sequence; each \<open>updateHistory\<close> returns normally and
  puts its entry at the head of the key's sequence, whether or not the containers
  existed; after the calls for the entries \<open>es\<close>, in this order, \<open>getHistory\<close> returns
  them in reverse order, in front of what the key held before; and for a bot or a
  profile never seen the sequence held before is empty.
\<close>

theorem history_newest_first:
  assumes "\<not> inherited b" and "\<not> inherited p"
  shows "\<exists>old. getHistory s b p = Inr (Array old)
           \<and> fst (updateHistory s b p e) = None
           \<and> getHistory (snd (updateHistory s b p e)) b p = Inr (Array (e # old))
           \<and> getHistory (fold (\<lambda>e st. snd (updateHistory st b p e)) es s) b p
               = Inr (Array (rev es @ old))
           \<and> (histories s b = None \<or> (\<exists>m. histories s b = Some m \<and> m p = None)
                \<longrightarrow> old = [])"
proof -
  let ?old = "case histories s b of
                None \<Rightarrow> []
              | Some m \<Rightarrow> (case m p of None \<Rightarrow> [] | Some es \<Rightarrow> es)"
  have g: "getHistory s b p = Inr (Array ?old)"
    by (rule getHistory_ordinary [OF assms])
  have unseen: "histories s b = None \<or> (\<exists>m. histories s b = Some m \<and> m p = None)
                  \<longrightarrow> ?old = []"
    by auto
  show ?thesis
    using g updateHistory_ordinary(1,2) [OF assms g, of e]
      getHistory_fold_updateHistory [OF assms g, of es] unseen
    by blast
qed

theorem history_newest_first_witness:
  "\<not> inherited ''bot1'' \<and> \<not> inherited ''prod''
   \<and> histories (newAzurePublisher None) ''bot1'' = None
   \<and> getHistory (newAzurePublisher None) ''bot1'' ''prod'' = Inr (Array [])
   \<and> getHistory
        (fold (\<lambda>e st. snd (updateHistory st ''bot1'' ''prod'' e))
           [exEntry ''A'', exEntry ''B'', exEntry ''C''] (newAzurePublisher None))
        ''bot1'' ''prod'' = Inr (Array [exEntry ''C'', exEntry ''B'', exEntry ''A''])"
proof -
  have h: "histories (newAzurePublisher None) ''bot1'' = None"
    by (simp add: newAzurePublisher_def PERSIST_HISTORY_def)
  from history_newest_first [OF not_inherited_bot1 not_inherited_prod,
      of "newAzurePublisher None" "exEntry ''A''" "[exEntry ''A'', exEntry ''B'', exEntry ''C'']"]
  obtain old where old:
    "getHistory (newAzurePublisher None) ''bot1'' ''prod'' = Inr (Array old)"
    "getHistory
        (fold (\<lambda>e st. snd (updateHistory st ''bot1'' ''prod'' e))
           [exEntry ''A'', exEntry ''B'', exEntry ''C''] (newAzurePublisher None))
        ''bot1'' ''prod'' = Inr (Array (rev [exEntry ''A'', exEntry ''B'', exEntry ''C''] @ old))"
    "histories (newAzurePublisher None) ''bot1'' = None
       \<or> (\<exists>m. histories (newAzurePublisher None) ''bot1'' = Some m \<and> m ''prod'' = None)
     \<longrightarrow> old = []"
    by blast
  have "old = []" using old(3) h by simp
  with old(1,2) h not_inherited_bot1 not_inherited_prod show ?thesis by simp
qed

text \<open>The claim as first stated is for every key. Under the profile name
  \<open>constructor\<close> the read in \<open>updateHistory\<close> finds the member of \<open>Object.prototype\<close>, no
  sequence is created and \<open>unshift\<close> is not a function, so the call throws; and for
  that profile, never seen, of a bot that has a history \<open>getHistory\<close> returns the member
  and not an empty sequence.\<close>

theorem history_inherited_profile_counterexample:
  "fst (updateHistory (newAzurePublisher None) ''bot1'' ''constructor'' (exEntry ''A''))
     = Some TypeError
   \<and> getHistory (snd (updateHistory (newAzurePublisher None) ''bot1'' ''prod'' (exEntry ''A'')))
       ''bot1'' ''prod'' = Inr (Array [exEntry ''A''])
   \<and> getHistory (snd (updateHistory (newAzurePublisher None) ''bot1'' ''prod'' (exEntry ''A'')))
       ''bot1'' ''constructor'' = Inr (ObjectMember ''constructor'')"
  by (simp add: model_defs ex_defs)

subsection \<open>Publishing\<close>

lemma logMessages_init: "logMessages (init s src key) = logMessages s"
  and publishingBots_init: "publishingBots (init s src key) = publishingBots s"
  and histories_init: "histories (init s src key) = histories s"
  and objects_init: "objects (init s src key) = objects s"
  and nextRef_init: "nextRef (init s src key) = nextRef s"
  by (simp_all add: init_def)

text \<open>The \<open>catch\<close> block: the response is a new object with status 500 and the fixed
  message \<open>Publish Fail\<close>; the text of the error is the last line of its log.\<close>

lemma publishFailed_response:
  assumes "publishFailed s b p j key now md err = (response, s')"
  shows "objects s' response =
           \<lparr>status = 500,
            result = \<lparr>r_id = j, time = now, message = ''Publish Fail'',
                      log = join newline (logMessages s @ [err]),
                      comment = md_comment md\<rparr>\<rparr>"
    and "publishingBots s' = publishingBots s"
    and "folders s' key = None"
    and "response = nextRef s"
proof -
  let ?r = "\<lparr>status = 500,
            result = \<lparr>r_id = j, time = now, message = ''Publish Fail'',
                      log = join newline (logMessages s @ [err]),
                      comment = md_comment md\<rparr>\<rparr>"
  let ?s2 = "s\<lparr>logMessages := logMessages s @ [err], objects := (objects s)(nextRef s := ?r),
               nextRef := Suc (nextRef s)\<rparr>"
  have eq: "publishFailed s b p j key now md err
              = (nextRef s, cleanup (snd (updateHistory ?s2 b p (toHistory ?r))) key)"
    by (simp add: publishFailed_def newObject_def Let_def)
  have pair: "(response, s') = (nextRef s, cleanup (snd (updateHistory ?s2 b p (toHistory ?r))) key)"
    using assms eq by (rule trans [OF sym])
  have r: "response = nextRef s"
    using pair by (simp only: prod.inject)
  have s': "s' = cleanup (snd (updateHistory ?s2 b p (toHistory ?r))) key"
    using pair by (simp only: prod.inject)
  show "response = nextRef s" by (rule r)
  have "objects s' = objects ?s2"
    by (simp add: s' cleanup_def updateHistory_def PERSIST_HISTORY_def Let_def
          split: property.splits)
  then show "objects s' response = ?r" by (simp add: r)
  show "publishingBots s' = publishingBots s"
    by (simp add: s' cleanup_def updateHistory_def PERSIST_HISTORY_def Let_def
          split: property.splits)
  show "folders s' key = None"
    by (simp add: s' cleanup_def)
qed

lemma publishFailed_history:
  assumes "publishFailed s b p j key now md err = (response, s')"
    and "\<not> inherited b" and "\<not> inherited p" and "getHistory s b p = Inr (Array old)"
  shows "getHistory s' b p = Inr (Array (toHistory (objects s' response) # old))"
proof -
  let ?r = "\<lparr>status = 500,
            result = \<lparr>r_id = j, time = now, message = ''Publish Fail'',
                      log = join newline (logMessages s @ [err]),
                      comment = md_comment md\<rparr>\<rparr>"
  let ?s2 = "s\<lparr>logMessages := logMessages s @ [err], objects := (objects s)(nextRef s := ?r),
               nextRef := Suc (nextRef s)\<rparr>"
  have eq: "publishFailed s b p j key now md err
              = (nextRef s, cleanup (snd (updateHistory ?s2 b p (toHistory ?r))) key)"
    by (simp add: publishFailed_def newObject_def Let_def)
  have pair: "(response, s') = (nextRef s, cleanup (snd (updateHistory ?s2 b p (toHistory ?r))) key)"
    using assms(1) eq by (rule trans [OF sym])
  have s': "s' = cleanup (snd (updateHistory ?s2 b p (toHistory ?r))) key"
    using pair by (simp only: prod.inject)
  have o: "objects s' response = ?r"
    by (rule publishFailed_response(1) [OF assms(1)])
  have "getHistory ?s2 b p = getHistory s b p"
    by (rule getHistory_cong) simp
  then have g2: "getHistory ?s2 b p = Inr (Array old)"
    using assms(4) by simp
  have "histories s' = histories (snd (updateHistory ?s2 b p (toHistory ?r)))"
    by (simp add: s' cleanup_def)
  then have "getHistory s' b p = getHistory (snd (updateHistory ?s2 b p (toHistory ?r))) b p"
    by (rule getHistory_cong)
  also have "\<dots> = Inr (Array (toHistory ?r # old))"
    by (rule updateHistory_ordinary(2) [OF assms(2,3) g2])
  finally show ?thesis by (simp only: o)
qed

lemma publish_invalid:
  assumes "resourceKeyOf hash config project = Some key" and "initError files = None"
    and "\<not> inherited (p_id project)"
    and "\<not> truthy (accessToken config) \<or> provision config = None"
  shows "publish hash jobId now files s config project metadata =
           Inr (publishFailed (init s (runtimeCodePathOf config project) key)
                  (p_id project) (name config) jobId key now metadata
                  (if \<not> truthy (accessToken config) then accessTokenMissing
                   else provisionMissing))"
  using assms by (auto simp add: publish_def Let_def)

lemma mentions_append: "mentions n ys \<Longrightarrow> mentions n (xs @ ys)"
  by (induction xs) auto

lemma join_snoc: "\<exists>pre. join sep (xs @ [e]) = pre @ e"
proof (induction xs rule: join.induct [of _ sep])
  case (1 sep)
  then show ?case by simp
next
  case (2 sep x)
  then show ?case by simp
next
  case (3 sep x y ys)
  then show ?case by auto
qed

lemma mentions_join_snoc: "mentions n e \<Longrightarrow> mentions n (join sep (xs @ [e]))"
  using join_snoc [of sep xs e] mentions_append by metis

lemma mentions_accessTokenMissing: "mentions ''accessToken'' accessTokenMissing"
  by (simp add: accessTokenMissing_def)




text \<open>
  \<^bold>\<open>C10\<close> (as amended). Let the hash of the resource key return (the subscription id
  is a UUID), let \<open>init\<close> return, and let neither the bot id nor the profile name be an
  inherited name. For every such \<open>publish\<close> that fails validation (no access token, or
  no provisioning data): the call returns a result with status 500 that carries, in
  \<open>result.id\<close>, the job id generated at the start of the call; the history entry put
  in front for the key is the copy of that result and carries the same id; the job
  status table is unchanged, so no record with that id is created there; the result
  also carries the caller's \<open>metadata.comment\<close> and the time stamp.
\<close>

theorem publish_rejection_carries_job_id:
  assumes "resourceKeyOf hash config project = Some key" and "initError files = None"
    and "\<not> inherited (p_id project)" and "\<not> inherited (name config)"
    and "\<not> truthy (accessToken config) \<or> provision config = None"
  shows "\<exists>response s' old.
      publish hash jobId now files s config project metadata = Inr (response, s')
    \<and> status (objects s' response) = 500
    \<and> r_id (result (objects s' response)) = jobId
    \<and> comment (result (objects s' response)) = md_comment metadata
    \<and> time (result (objects s' response)) = now
    \<and> getHistory s (p_id project) (name config) = Inr (Array old)
    \<and> getHistory s' (p_id project) (name config)
         = Inr (Array (toHistory (objects s' response) # old))
    \<and> h_id (toHistory (objects s' response)) = jobId
    \<and> h_status (toHistory (objects s' response)) = 500
    \<and> publishingBots s' = publishingBots s"
proof -
  let ?s0 = "init s (runtimeCodePathOf config project) key"
  let ?err = "if \<not> truthy (accessToken config) then accessTokenMissing else provisionMissing"
  let ?run = "publishFailed ?s0 (p_id project) (name config) jobId key now metadata ?err"
  obtain response s' where pf: "?run = (response, s')" by (cases ?run)
  have pub: "publish hash jobId now files s config project metadata = Inr (response, s')"
    using publish_invalid [OF assms(1-3,5), of jobId now s metadata] pf by simp
  obtain old where old: "getHistory s (p_id project) (name config) = Inr (Array old)"
    using getHistory_ordinary [OF assms(3,4)] by blast
  have old0: "getHistory ?s0 (p_id project) (name config) = Inr (Array old)"
    using old getHistory_cong [OF histories_init] by simp
  note r = publishFailed_response [OF pf]
  have hist: "getHistory s' (p_id project) (name config)
                = Inr (Array (toHistory (objects s' response) # old))"
    by (rule publishFailed_history [OF pf assms(3,4) old0])
  have "status (objects s' response) = 500
    \<and> r_id (result (objects s' response)) = jobId
    \<and> comment (result (objects s' response)) = md_comment metadata
    \<and> time (result (objects s' response)) = now
    \<and> h_id (toHistory (objects s' response)) = jobId
    \<and> h_status (toHistory (objects s' response)) = 500
    \<and> publishingBots s' = publishingBots s"
    using r(2) by (simp add: r(1) toHistory_def publishingBots_init)
  with pub old hist show ?thesis by blast
qed

theorem publish_rejection_carries_job_id_witness:
  "resourceKeyOf exHash ((exConfig ''prod'' (Some ''tok''))\<lparr>provision := None\<rparr>) exProject
     = Some exKey
   \<and> initError exFilesOk = None
   \<and> \<not> inherited (p_id exProject)
   \<and> \<not> inherited (name ((exConfig ''prod'' (Some ''tok''))\<lparr>provision := None\<rparr>))
   \<and> provision ((exConfig ''prod'' (Some ''tok''))\<lparr>provision := None\<rparr>) = None
   \<and> publish exHash ''A'' 1 exFilesOk (newAzurePublisher None)
         ((exConfig ''prod'' (Some ''tok''))\<lparr>provision := None\<rparr>) exProject exMetadata
       = Inr exNoProvision
   \<and> status (objects (snd exNoProvision) (fst exNoProvision)) = 500
   \<and> r_id (result (objects (snd exNoProvision) (fst exNoProvision))) = ''A''
   \<and> getHistory (snd exNoProvision) ''bot1'' ''prod''
        = Inr (Array [toHistory (objects (snd exNoProvision) (fst exNoProvision))])
   \<and> h_id (toHistory (objects (snd exNoProvision) (fst exNoProvision))) = ''A''
   \<and> publishingBots (snd exNoProvision) = Map.empty
   \<and> comment (result (objects (snd exNoProvision) (fst exNoProvision))) = Some ''first''
   \<and> time (result (objects (snd exNoProvision) (fst exNoProvision))) = 1"
proof -
  let ?cfg = "(exConfig ''prod'' (Some ''tok''))\<lparr>provision := None\<rparr>"
  have key: "resourceKeyOf exHash ?cfg exProject = Some exKey"
    by (simp add: resourceKeyOf_def exHash_def exConfig_def uuidShaped_def)
  have ok: "initError exFilesOk = None" by (simp add: exFilesOk_def)
  have args: "p_id exProject = ''bot1''" "name ?cfg = ''prod''"
    "md_comment exMetadata = Some ''first''"
    by (simp_all add: exProject_def exConfig_def exMetadata_def)
  have b: "\<not> inherited (p_id exProject)" by (simp only: args not_inherited_bot1 simp_thms)
  have p: "\<not> inherited (name ?cfg)" by (simp only: args not_inherited_prod simp_thms)
  have pr: "provision ?cfg = None" by simp
  then have h: "\<not> truthy (accessToken ?cfg) \<or> provision ?cfg = None" by (rule disjI2)
  have before: "getHistory (newAzurePublisher None) ''bot1'' ''prod'' = Inr (Array [])"
    "publishingBots (newAzurePublisher None) = Map.empty"
    using not_inherited_bot1 not_inherited_prod
    by (simp_all add: newAzurePublisher_def getHistory_def readProp_def PERSIST_HISTORY_def)
  from publish_rejection_carries_job_id [OF key ok b p h, of "''A''" 1 "newAzurePublisher None"
      exMetadata]
  obtain response s' old where run:
    "publish exHash ''A'' 1 exFilesOk (newAzurePublisher None) ?cfg exProject exMetadata
       = Inr (response, s')"
    and facts: "status (objects s' response) = 500"
      "r_id (result (objects s' response)) = ''A''"
      "comment (result (objects s' response)) = md_comment exMetadata"
      "time (result (objects s' response)) = 1"
      "getHistory (newAzurePublisher None) (p_id exProject) (name ?cfg) = Inr (Array old)"
      "getHistory s' (p_id exProject) (name ?cfg)
         = Inr (Array (toHistory (objects s' response) # old))"
      "h_id (toHistory (objects s' response)) = ''A''"
      "publishingBots s' = publishingBots (newAzurePublisher None)"
    by blast
  have ex: "exNoProvision = (response, s')"
    by (simp only: exNoProvision_def run sum.sel)
  have "old = []" using facts(5) before(1) by (simp add: args)
  then show ?thesis
    using key ok b p pr run facts by (simp add: ex before args)
qed

text \<open>The claim as first stated is for every call that fails validation. With a
  subscription id that is no UUID the hash throws before the \<open>try\<close> block, and where
  \<open>init\<close> throws the call rejects as well: there is no result and no history entry.
  With the profile name \<open>constructor\<close> there is a 500 result with the job id, but no
  history entry for the key.\<close>

theorem publish_rejection_counterexample:
  "provision ((exNoUuid (Some ''tok''))\<lparr>provision := None\<rparr>) = None
   \<and> publish exHash ''A'' 1 exFilesOk (newAzurePublisher None)
         ((exNoUuid (Some ''tok''))\<lparr>provision := None\<rparr>) exProject exMetadata = Inl TypeError
   \<and> publish exHash ''A'' 1 exInitFails (newAzurePublisher None)
         ((exConfig ''prod'' (Some ''tok''))\<lparr>provision := None\<rparr>) exProject exMetadata
       = Inl (IOError ''EACCES: permission denied'')
   \<and> r_id (result (objects (snd exInheritedProfile) (fst exInheritedProfile))) = ''A''
   \<and> getHistory (snd exInheritedProfile) ''bot1'' ''constructor''
        = Inr (ObjectMember ''constructor'')"
  by (simp add: model_defs ex_defs)

text \<open>
  \<^bold>\<open>C8\<close> (as amended). Let the hash of the resource key return (the subscription id
  is a UUID), let \<open>init\<close>, the read and write of the deployment settings and the
  construction of the deployer return, and let neither the bot id nor the profile
  name be an inherited name. For every such \<open>publish\<close> that passes validation (access
  token and provisioning data both present): the response is a record with the job
  id generated for the call, status 202, the message \<open>Accepted for publishing.\<close> and
  the initial log line \<open>Publish starting...\<close>; it is appended at the tail of the list
  of \<open>(project.id, config.name)\<close>; the reference returned to the caller is the one in
  the table, so the latest status of the key is that record; the history of the key
  is untouched, since the call returns before the deployment has ended.
\<close>

theorem publish_accepts:
  assumes key: "resourceKeyOf hash config project = Some key"
    and files: "initError files = None" "mergeError files = None"
    and ord: "\<not> inherited (p_id project)" "\<not> inherited (name config)"
    and valid: "truthy (accessToken config)" "provision config \<noteq> None"
  shows "\<exists>response s'.
      publish hash jobId now files s config project metadata = Inr (response, s')
    \<and> objects s' response =
           \<lparr>status = 202,
            result = \<lparr>r_id = jobId, time = now, message = ''Accepted for publishing.'',
                      log = ''Publish starting...'', comment = md_comment metadata\<rparr>\<rparr>
    \<and> jobsOf s' (p_id project) (name config) = jobsOf s (p_id project) (name config) @ [response]
    \<and> getLoadingStatus s' (p_id project) (name config) [] = Inr (Some response)
    \<and> getHistory s' (p_id project) (name config) = getHistory s (p_id project) (name config)"
proof -
  define acc where "acc =
     (init s (runtimeCodePathOf config project) key)
       \<lparr>azDeployer := Some \<lparr>subId = subscriptionID config,
                             d_accessToken = the (accessToken config),
                             projFolder = key\<rparr>,
        logMessages := [''Publish starting...''],
        objects := (objects s)
          (nextRef s :=
             \<lparr>status = 202,
              result = \<lparr>r_id = jobId, time = now, message = ''Accepted for publishing.'',
                        log = ''Publish starting...'', comment = md_comment metadata\<rparr>\<rparr>),
        nextRef := Suc (nextRef s)\<rparr>"
  define response where "response = nextRef s"
  define s' where "s' = snd (addLoadingStatus acc (p_id project) (name config) response)"
  note add = addLoadingStatus_ordinary [OF ord, of acc response]
  have addrun: "addLoadingStatus acc (p_id project) (name config) response = (None, s')"
    using add(1) by (simp add: s'_def prod_eq_iff)
  have pub: "publish hash jobId now files s config project metadata = Inr (response, s')"
    using key files ord(1) valid addrun unfolding acc_def response_def
    by (cases "provision config")
       (simp_all add: publish_def Let_def newObject_def objects_init nextRef_init)
  have "objects s' = objects acc"
    unfolding s'_def by (rule add(3))
  then have obj: "objects s' response =
           \<lparr>status = 202,
            result = \<lparr>r_id = jobId, time = now, message = ''Accepted for publishing.'',
                      log = ''Publish starting...'', comment = md_comment metadata\<rparr>\<rparr>"
    by (simp add: acc_def response_def)
  have "jobsOf acc (p_id project) (name config) = jobsOf s (p_id project) (name config)"
    by (rule jobsOf_cong) (simp add: acc_def init_def)
  then have jobs: "jobsOf s' (p_id project) (name config)
                     = jobsOf s (p_id project) (name config) @ [response]"
    unfolding s'_def by (simp only: add(2))
  have tail: "getLoadingStatus s' (p_id project) (name config) [] = Inr (Some response)"
    unfolding s'_def by (rule getLoadingStatus_addLoadingStatus [OF ord])
  have "histories s' = histories acc"
    unfolding s'_def by (rule add(4))
  also have "\<dots> = histories s"
    by (simp add: acc_def init_def)
  finally have "getHistory s' (p_id project) (name config)
                  = getHistory s (p_id project) (name config)"
    by (rule getHistory_cong)
  with pub obj jobs tail show ?thesis by blast
qed

lemma exOneJob_run:
  "publish exHash ''A'' 1 exFilesOk (newAzurePublisher None) (exConfig ''prod'' (Some ''tok''))
     exProject exMetadata = Inr (0, exOneJob)"
  by (simp add: model_defs ex_defs)

lemma exOtherProfile_run:
  "\<exists>first. publish exHash ''A'' 1 exFilesOk (newAzurePublisher None) (exConfig ''test'' None)
              exProject exMetadata = Inr (0, first)
           \<and> publish exHash ''B'' 2 exFilesOk first (exConfig ''prod'' (Some ''tok''))
              exProject exMetadata = Inr (1, exOtherProfile)"
  by (simp add: model_defs ex_defs)

theorem publish_accepts_witness:
  "resourceKeyOf exHash (exConfig ''prod'' (Some ''tok'')) exProject = Some exKey
   \<and> initError exFilesOk = None \<and> mergeError exFilesOk = None
   \<and> \<not> inherited (p_id exProject) \<and> \<not> inherited (name (exConfig ''prod'' (Some ''tok'')))
   \<and> truthy (accessToken (exConfig ''prod'' (Some ''tok'')))
   \<and> provision (exConfig ''prod'' (Some ''tok'')) \<noteq> None
   \<and> jobsOf exOneJob ''bot1'' ''prod'' = [0]
   \<and> publish exHash ''B'' 2 exFilesOk exOneJob (exConfig ''prod'' (Some ''tok''))
         exProject exMetadata = Inr (1, exTwoJobs)
   \<and> status (objects exTwoJobs 1) = 202
   \<and> r_id (result (objects exTwoJobs 1)) = ''B''
   \<and> jobsOf exTwoJobs ''bot1'' ''prod'' = [0, 1]
   \<and> getLoadingStatus exTwoJobs ''bot1'' ''prod'' [] = Inr (Some 1)"
proof -
  let ?cfg = "exConfig ''prod'' (Some ''tok'')"
  have key: "resourceKeyOf exHash ?cfg exProject = Some exKey"
    by (simp add: resourceKeyOf_def exHash_def exConfig_def uuidShaped_def)
  have ok: "initError exFilesOk = None" "mergeError exFilesOk = None"
    by (simp_all add: exFilesOk_def)
  have args: "p_id exProject = ''bot1''" "name ?cfg = ''prod''"
    by (simp_all add: exProject_def exConfig_def)
  have b: "\<not> inherited (p_id exProject)" by (simp only: args not_inherited_bot1 simp_thms)
  have p: "\<not> inherited (name ?cfg)" by (simp only: args not_inherited_prod simp_thms)
  have h1: "truthy (accessToken ?cfg)" by (simp add: truthy_def exConfig_def)
  have h2: "provision ?cfg \<noteq> None" by (simp add: exConfig_def)
  have jobs: "jobsOf exOneJob ''bot1'' ''prod'' = [0]"
    by (simp add: model_defs ex_defs)
  have next1: "nextRef exOneJob = 1"
    by (simp add: model_defs ex_defs)
  from publish_accepts [OF key ok b p h1 h2, of "''B''" 2 exOneJob exMetadata]
  obtain response s' where run:
    "publish exHash ''B'' 2 exFilesOk exOneJob ?cfg exProject exMetadata = Inr (response, s')"
    and facts:
      "objects s' response =
         \<lparr>status = 202,
          result = \<lparr>r_id = ''B'', time = 2, message = ''Accepted for publishing.'',
                    log = ''Publish starting...'', comment = md_comment exMetadata\<rparr>\<rparr>"
      "jobsOf s' (p_id exProject) (name ?cfg)
         = jobsOf exOneJob (p_id exProject) (name ?cfg) @ [response]"
      "getLoadingStatus s' (p_id exProject) (name ?cfg) [] = Inr (Some response)"
    by blast
  have two: "exTwoJobs = s'"
    by (simp only: exTwoJobs_def run sum.sel snd_conv)
  have "response = last (jobsOf s' ''bot1'' ''prod'')"
    using facts(2) by (simp add: args)
  moreover have "jobsOf exTwoJobs ''bot1'' ''prod'' = [0, 1]"
    by (simp add: model_defs ex_defs)
  ultimately have resp: "response = 1" by (simp add: two)
  show ?thesis
    using key ok b p h1 h2 jobs run facts by (simp add: two resp args)
qed

text \<open>The claim as first stated is for every call that passes validation. Where the
  deployment settings cannot be read, such a call reaches the \<open>catch\<close> block: it
  returns a result with status 500 and puts no record into the table. With a
  subscription id that is no UUID it rejects with the \<open>TypeError\<close> of the hash.\<close>

theorem publish_accepts_counterexample:
  "truthy (accessToken (exConfig ''prod'' (Some ''tok'')))
   \<and> provision (exConfig ''prod'' (Some ''tok'')) \<noteq> None
   \<and> publish exHash ''A'' 1 exMergeFails (newAzurePublisher None)
         (exConfig ''prod'' (Some ''tok'')) exProject exMetadata = Inr exMergeRejected
   \<and> status (objects (snd exMergeRejected) (fst exMergeRejected)) = 500
   \<and> message (result (objects (snd exMergeRejected) (fst exMergeRejected))) = ''Publish Fail''
   \<and> jobsOf (snd exMergeRejected) ''bot1'' ''prod'' = []
   \<and> getLoadingStatus (snd exMergeRejected) ''bot1'' ''prod'' [] = Inr None
   \<and> truthy (accessToken (exNoUuid (Some ''tok'')))
   \<and> provision (exNoUuid (Some ''tok'')) \<noteq> None
   \<and> publish exHash ''A'' 1 exFilesOk (newAzurePublisher None) (exNoUuid (Some ''tok''))
         exProject exMetadata = Inl TypeError"
  by (simp add: model_defs ex_defs)

subsection \<open>Completion of a deployment\<close>

text \<open>For a key that has a list in the table, the body of the completion runs to its
  end: it writes the record it was given, and the table loses what
  \<open>removeLoadingStatus\<close> splices out.\<close>

lemma settle_present:
  assumes o: "\<not> inherited b" "\<not> inherited p"
    and m: "publishingBots s b = Some m" "m p = Some jobs"
  shows "fst (settle s b p j key st code msg) = None"
    and "objects (snd (settle s b p j key st code msg)) =
           (objects s)(st := (objects s st)\<lparr>status := code,
              result := (result (objects s st))\<lparr>message := msg,
                                                 log := join newline (logMessages s)\<rparr>\<rparr>)"
    and "jobsOf (snd (settle s b p j key st code msg)) b p =
           slice jobs 0 (findIndex (\<lambda>item. r_id (result (objects s item)) = j) jobs)
           @ sliceFrom jobs (findIndex (\<lambda>item. r_id (result (objects s item)) = j) jobs + 1)"
proof -
  define r where "r = (objects s st)\<lparr>status := code,
        result := (result (objects s st))\<lparr>message := msg, log := join newline (logMessages s)\<rparr>\<rparr>"
  define s1 where "s1 = s\<lparr>objects := (objects s)(st := r)\<rparr>"
  define s2 where "s2 = snd (updateHistory s1 b p (toHistory (objects s1 st)))"
  define s3 where "s3 = snd (removeLoadingStatus s2 b p j)"
  obtain old where old: "getHistory s1 b p = Inr (Array old)"
    using getHistory_ordinary [OF o] by blast
  note up = updateHistory_ordinary [OF o old, of "toHistory (objects s1 st)"]
  have run2: "updateHistory s1 b p (toHistory (objects s1 st)) = (None, s2)"
    using up(1) by (simp add: s2_def prod_eq_iff)
  have tab2: "publishingBots s2 b = Some m"
    using up(3) m(1) by (simp add: s2_def s1_def)
  have obj2: "objects s2 = objects s1"
    using up(4) by (simp add: s2_def)
  note rem = removeLoadingStatus_present [OF o tab2 m(2), of j]
  have run3: "removeLoadingStatus s2 b p j =
                (Inr (at jobs (findIndex (\<lambda>item. r_id (result (objects s2 item)) = j) jobs)), s3)"
    using rem(1) by (simp add: s3_def prod_eq_iff)
  have eq: "settle s b p j key st code msg = (None, cleanup s3 key)"
    using run2 run3 unfolding s1_def r_def
    by (simp add: settle_def Let_def)
  show "fst (settle s b p j key st code msg) = None"
    by (simp add: eq)
  have "objects (cleanup s3 key) = objects s1"
    using rem(3) obj2 by (simp add: cleanup_def s3_def)
  then show "objects (snd (settle s b p j key st code msg)) =
           (objects s)(st := (objects s st)\<lparr>status := code,
              result := (result (objects s st))\<lparr>message := msg,
                                                 log := join newline (logMessages s)\<rparr>\<rparr>)"
    by (simp add: eq s1_def r_def)
  have ids: "(\<lambda>item. r_id (result (objects s2 item)) = j)
               = (\<lambda>item. r_id (result (objects s item)) = j)"
    by (auto simp add: obj2 s1_def r_def fun_eq_iff)
  have "jobsOf (cleanup s3 key) b p = jobsOf s3 b p"
    by (rule jobsOf_cong) (simp add: cleanup_def)
  also have "\<dots> = slice jobs 0 (findIndex (\<lambda>item. r_id (result (objects s2 item)) = j) jobs)
           @ sliceFrom jobs (findIndex (\<lambda>item. r_id (result (objects s2 item)) = j) jobs + 1)"
    unfolding s3_def by (rule rem(2))
  finally show "jobsOf (snd (settle s b p j key st code msg)) b p =
           slice jobs 0 (findIndex (\<lambda>item. r_id (result (objects s item)) = j) jobs)
           @ sliceFrom jobs (findIndex (\<lambda>item. r_id (result (objects s item)) = j) jobs + 1)"
    by (simp only: eq snd_conv ids)
qed

lemma createAndDeploy_present:
  assumes o: "\<not> inherited b" "\<not> inherited p"
    and m: "publishingBots s b = Some m" "m p = Some jobs" and "jobs \<noteq> []"
    and "\<exists>x\<in>set jobs. r_id (result (objects s x)) = A"
  obtains st code msg where
      "createAndDeploy s b p A key out = Inr (snd (settle s b p A key st code msg))"
    and "st \<in> set jobs" and "A \<noteq> [] \<Longrightarrow> r_id (result (objects s st)) = A"
proof -
  let ?P = "\<lambda>item. r_id (result (objects s item)) = A"
  obtain st where st: "getLoadingStatus s b p A = Inr (Some st)" "st \<in> set jobs"
    "A \<noteq> [] \<Longrightarrow> ?P st"
  proof (cases "A = []")
    case True
    then have "getLoadingStatus s b p A = Inr (Some (last jobs))"
      using getLoadingStatus_present [OF o m assms(5)] by simp
    moreover have "last jobs \<in> set jobs" using assms(5) by simp
    ultimately show ?thesis using that True by blast
  next
    case False
    from assms(6) obtain st where f: "find ?P jobs = Some st"
      by (cases "find ?P jobs") (auto simp add: find_None_iff)
    then have "st \<in> set jobs" and "?P st"
      by (auto simp add: find_Some_iff)
    moreover have "getLoadingStatus s b p A = Inr (Some st)"
      using getLoadingStatus_present [OF o m assms(5)] False f by simp
    ultimately show ?thesis using that by blast
  qed
  have ran: "\<And>code msg. fst (settle s b p A key st code msg) = None"
    by (rule settle_present(1) [OF o m])
  show ?thesis
  proof (cases out)
    case Deployed
    have "createAndDeploy s b p A key out = Inr (snd (settle s b p A key st 200 ''Success''))"
      using ran [of 200 "''Success''"]
      by (auto simp add: createAndDeploy_def Deployed st(1) split: prod.splits option.splits)
    then show ?thesis using that st by blast
  next
    case (Rejected err)
    have "createAndDeploy s b p A key out =
            Inr (snd (settle s b p A key st 500
                        (case err of Some m \<Rightarrow> m | None \<Rightarrow> ''publish error'')))"
      using ran [of 500 "case err of Some m \<Rightarrow> m | None \<Rightarrow> ''publish error''"]
      by (auto simp add: createAndDeploy_def deployFailed_def Rejected st(1)
            split: prod.splits option.splits)
    then show ?thesis using that st by blast
  qed
qed

text \<open>
  \<^bold>\<open>C9.\<close> Let the list of a key hold a record with job id \<open>A\<close> and a record with a
  different job id \<open>B\<close>. The completion of job \<open>A\<close>, successful or not (look-up by id,
  write of the terminal status, copy into the history, \<open>removeLoadingStatus\<close> with id
  \<open>A\<close>), returns normally and leaves the record with id \<open>B\<close> in the list of the key, with
  its id; for a job id that is a non-empty string, as every generated id is, that
  record is not written at all.
\<close>

theorem completion_keeps_other_job:
  assumes a: "ra \<in> set (jobsOf s b p)" and b: "rb \<in> set (jobsOf s b p)"
    and ida: "r_id (result (objects s ra)) = A" and idb: "r_id (result (objects s rb)) = B"
    and ne: "A \<noteq> B"
  shows "\<exists>s'. createAndDeploy s b p A key out = Inr s'
           \<and> rb \<in> set (jobsOf s' b p)
           \<and> r_id (result (objects s' rb)) = B
           \<and> (A \<noteq> [] \<longrightarrow> objects s' rb = objects s rb)"
proof -
  let ?jobs = "jobsOf s b p"
  obtain m where o: "\<not> inherited b" "\<not> inherited p"
    and m: "publishingBots s b = Some m" "m p = Some ?jobs"
    using jobsOf_present [OF a] by blast
  have nonempty: "?jobs \<noteq> []" using a by auto
  have ex: "\<exists>x\<in>set ?jobs. r_id (result (objects s x)) = A" using a ida by blast
  obtain st code msg where
      run: "createAndDeploy s b p A key out = Inr (snd (settle s b p A key st code msg))"
    and st: "st \<in> set ?jobs" "A \<noteq> [] \<Longrightarrow> r_id (result (objects s st)) = A"
    using createAndDeploy_present [OF o m nonempty ex] by blast
  let ?s' = "snd (settle s b p A key st code msg)"
  have other: "\<not> r_id (result (objects s rb)) = A" using idb ne by simp
  have kept: "rb \<in> set (jobsOf ?s' b p)"
    unfolding settle_present(3) [OF o m] using b other by (rule splice_keeps)
  have id': "r_id (result (objects ?s' rb)) = B"
    using idb by (auto simp add: settle_present(2) [OF o m])
  have same: "A \<noteq> [] \<longrightarrow> objects ?s' rb = objects s rb"
  proof
    assume "A \<noteq> []"
    then have "r_id (result (objects s st)) = A" by (rule st(2))
    then have "st \<noteq> rb" using idb ne by auto
    then show "objects ?s' rb = objects s rb" by (simp add: settle_present(2) [OF o m])
  qed
  show ?thesis using run kept id' same by blast
qed

theorem completion_keeps_other_job_witness:
  "0 \<in> set (jobsOf exTwoJobs ''bot1'' ''prod'') \<and> 1 \<in> set (jobsOf exTwoJobs ''bot1'' ''prod'')
   \<and> r_id (result (objects exTwoJobs 0)) = ''A'' \<and> r_id (result (objects exTwoJobs 1)) = ''B''
   \<and> ''A'' \<noteq> ''B''
   \<and> (\<exists>s'. createAndDeploy exTwoJobs ''bot1'' ''prod'' ''A'' ''rk'' Deployed = Inr s'
          \<and> 1 \<in> set (jobsOf s' ''bot1'' ''prod'')
          \<and> r_id (result (objects s' 1)) = ''B''
          \<and> objects s' 1 = objects exTwoJobs 1)"
proof -
  have jobs: "jobsOf exTwoJobs ''bot1'' ''prod'' = [0, 1]"
    by (simp add: model_defs ex_defs)
  have a: "0 \<in> set (jobsOf exTwoJobs ''bot1'' ''prod'')" by (simp add: jobs)
  have b: "1 \<in> set (jobsOf exTwoJobs ''bot1'' ''prod'')" by (simp add: jobs)
  have ida: "r_id (result (objects exTwoJobs 0)) = ''A''"
    by (simp add: model_defs ex_defs)
  have idb: "r_id (result (objects exTwoJobs 1)) = ''B''"
    by (simp add: model_defs ex_defs)
  have ne: "''A'' \<noteq> ''B''" by simp
  show ?thesis
    using a b ida idb completion_keeps_other_job [OF a b ida idb ne, of "''rk''" Deployed]
    by simp
qed

subsection \<open>Status queries\<close>

text \<open>Where \<open>getLoadingStatus\<close> returns and the history of the key is a sequence,
  \<open>getStatus\<close> is the three-way choice: the latest record of the table, else the newest
  history entry in an envelope, else the 404 result.\<close>

lemma getStatus_cases:
  assumes "getLoadingStatus s (p_id project) (name config) [] = Inr found"
    and "getHistory s (p_id project) (name config) = Inr (Array current)"
  shows "getStatus s config project =
           Inr (case found of
                  Some st \<Rightarrow> Record st
                | None \<Rightarrow>
                    (case current of
                       [] \<Rightarrow> Envelope 404 (Message ''bot not published'')
                     | e # _ \<Rightarrow> Envelope (h_status e) (Entry e)))"
  using assms by (simp add: getStatus_def Let_def split: option.splits list.splits)

lemma getStatus_throws:
  assumes "getLoadingStatus s (p_id project) (name config) [] = Inl e"
  shows "getStatus s config project = Inl e"
  using assms by (simp add: getStatus_def Let_def)

text \<open>
  \<^bold>\<open>C2.\<close> The property: \<open>getLoadingStatus\<close> and \<open>getStatus\<close> never throw; a missing
  bot, a missing profile or an empty list shows in the value returned. After one
  accepted publish for \<open>(bot1, prod)\<close> the bot has a container without a list for the
  profile \<open>test\<close>; there both functions throw a \<open>TypeError\<close>, with or without a job id.
\<close>

theorem status_query_other_profile_throws:
  "jobsOf exOneJob ''bot1'' ''prod'' = [0]
   \<and> getLoadingStatus exOneJob ''bot1'' ''test'' [] = Inl TypeError
   \<and> getLoadingStatus exOneJob ''bot1'' ''test'' ''A'' = Inl TypeError
   \<and> getStatus exOneJob (exConfig ''test'' (Some ''tok'')) exProject = Inl TypeError"
  by (simp add: model_defs ex_defs)

text \<open>
  \<^bold>\<open>C3.\<close> The property: \<open>getStatus\<close> returns the latest record of the table when there
  is one, else the newest history entry in an envelope, else the 404 result. After a
  rejected publish for \<open>(bot1, test)\<close> and an accepted one for \<open>(bot1, prod)\<close>, the key
  \<open>(bot1, test)\<close> has no record in the table and one history entry; \<open>getStatus\<close> for
  it throws a \<open>TypeError\<close> and the history entry is not returned.
\<close>

theorem getStatus_history_not_reached:
  "getHistory exOtherProfile ''bot1'' ''test''
     = Inr (Array [\<lparr>h_status = 500, h_id = ''A'', h_time = 1, h_message = ''Publish Fail'',
                    h_log = accessTokenMissing, h_comment = Some ''first''\<rparr>])
   \<and> jobsOf exOtherProfile ''bot1'' ''test'' = []
   \<and> getStatus exOtherProfile (exConfig ''test'' None) exProject = Inl TypeError"
  by (simp add: model_defs ex_defs)

text \<open>
  \<^bold>\<open>C7.\<close> The property: \<open>getLoadingStatus\<close> without a job id returns the record added
  last for the key and changes nothing; for an empty list or a key that is absent it
  returns \<open>undefined\<close>. After two records were added for \<open>(bot1, prod)\<close>, both calls
  returning normally, the key \<open>(bot1, test)\<close> is absent, and the call for it throws a
  \<open>TypeError\<close>.
\<close>

theorem getLoadingStatus_unseen_profile_throws:
  "fst (addLoadingStatus (newAzurePublisher None) ''bot1'' ''prod'' 0) = None
   \<and> fst (addLoadingStatus (snd (addLoadingStatus (newAzurePublisher None) ''bot1'' ''prod'' 0))
            ''bot1'' ''prod'' 1) = None
   \<and> getLoadingStatus
        (snd (addLoadingStatus (snd (addLoadingStatus (newAzurePublisher None) ''bot1'' ''prod'' 0))
                ''bot1'' ''prod'' 1))
        ''bot1'' ''prod'' [] = Inr (Some 1)
   \<and> getLoadingStatus
        (snd (addLoadingStatus (snd (addLoadingStatus (newAzurePublisher None) ''bot1'' ''prod'' 0))
                ''bot1'' ''prod'' 1))
        ''bot1'' ''test'' [] = Inl TypeError"
  by (simp add: model_defs)

end
